theory Spec2Isabelle
  imports Complex_Main "HOL-Library.Sublist"
begin

section \<open>JavaScript values used by the solver component\<close>

text \<open>
  The component \<^verbatim>\<open>LPSolver.vue\<close> never does arithmetic on its numbers: it only
  compares them (\<^verbatim>\<open>!== 0\<close>, \<^verbatim>\<open>> 0\<close>, \<^verbatim>\<open>< Infinity\<close>, \<^verbatim>\<open>> 0.5\<close>), tests their
  truthiness and prints them.  A JavaScript number is therefore modelled by its value:
  \<open>NaN\<close>, one of the two infinities, or a finite real (the two zeros of IEEE 754 are
  equal under every operation used here and are one value).  Strings are lists of
  characters, the code units below 256; letter case is that of ASCII, which is what the
  names of the statuses and of the variables are written in.  The one \<^verbatim>\<open>await\<close> of the pipeline is
  modelled as a call: nothing else runs between the submission of the document and the
  decoding of the result.
\<close>

datatype jsnum = NaN | NegInf | Fin real | PosInf

text \<open>The relational operator \<^verbatim>\<open><\<close>: false as soon as one side is \<open>NaN\<close>.\<close>

fun js_lt :: "jsnum \<Rightarrow> jsnum \<Rightarrow> bool" where
  "js_lt NaN _ = False"
| "js_lt _ NaN = False"
| "js_lt NegInf NegInf = False"
| "js_lt NegInf _ = True"
| "js_lt (Fin a) (Fin b) = (a < b)"
| "js_lt (Fin a) PosInf = True"
| "js_lt (Fin a) NegInf = False"
| "js_lt PosInf _ = False"

text \<open>\<^verbatim>\<open>a > b\<close> is \<^verbatim>\<open>b < a\<close>.\<close>

definition js_gt :: "jsnum \<Rightarrow> jsnum \<Rightarrow> bool" where
  "js_gt a b = js_lt b a"

text \<open>Truthiness of a number: \<open>NaN\<close> and zero are falsy.\<close>

definition truthyNum :: "jsnum \<Rightarrow> bool" where
  "truthyNum n = (n \<noteq> NaN \<and> n \<noteq> Fin 0)"

text \<open>
  A spreadsheet cell has type \<^verbatim>\<open>any\<close>; the values the sheet reader produces are
  strings, numbers and booleans, and a read past the end of a row is \<^verbatim>\<open>undefined\<close>.
\<close>

datatype cell = Undefined | Null | Bool bool | Number jsnum | Str string

text \<open>
  What the host language provides and the source only calls.  \<^verbatim>\<open>parseFloat\<close> on a
  string and the printing of a number both round through IEEE 754 doubles, so they are
  parameters of the model rather than definitions.
\<close>

record js_env =
  parseFloatStr :: "string \<Rightarrow> jsnum"
  numToString :: "jsnum \<Rightarrow> string"

definition truthy :: "cell \<Rightarrow> bool" where
  "truthy c = (case c of
      Undefined \<Rightarrow> False
    | Null \<Rightarrow> False
    | Bool b \<Rightarrow> b
    | Number n \<Rightarrow> truthyNum n
    | Str s \<Rightarrow> s \<noteq> [])"

text \<open>\<^verbatim>\<open>String(c)\<close>.\<close>

definition toStr :: "js_env \<Rightarrow> cell \<Rightarrow> string" where
  "toStr env c = (case c of
      Undefined \<Rightarrow> ''undefined''
    | Null \<Rightarrow> ''null''
    | Bool b \<Rightarrow> (if b then ''true'' else ''false'')
    | Number n \<Rightarrow> numToString env n
    | Str s \<Rightarrow> s)"

text \<open>
  \<^verbatim>\<open>parseFloat(c)\<close> converts its argument to a string first.  The words
  \<^verbatim>\<open>undefined\<close>, \<^verbatim>\<open>null\<close>, \<^verbatim>\<open>true\<close> and \<^verbatim>\<open>false\<close> start with no digit, sign or dot
  and are not \<^verbatim>\<open>Infinity\<close>, so they parse to \<open>NaN\<close>; a number printed and parsed again
  is the same number.
\<close>

definition parseFloat :: "js_env \<Rightarrow> cell \<Rightarrow> jsnum" where
  "parseFloat env c = (case c of
      Undefined \<Rightarrow> NaN
    | Null \<Rightarrow> NaN
    | Bool b \<Rightarrow> NaN
    | Number n \<Rightarrow> n
    | Str s \<Rightarrow> parseFloatStr env s)"

text \<open>
  \<^verbatim>\<open>String.prototype.trim\<close> strips white space and line terminators from both ends.  Of
  the characters that a \<open>char\<close> holds, the code units below 256, JavaScript strips tab,
  line feed, vertical tab, form feed, carriage return, space and the no-break space
  U+00A0, and no other (U+0085 is not white space in JavaScript).
\<close>

definition isSpace :: "char \<Rightarrow> bool" where
  "isSpace c =
     (c \<in> set [CHR 0x09, CHR 0x0A, CHR 0x0B, CHR 0x0C, CHR 0x0D, CHR 0x20, CHR 0xA0])"

definition trim :: "string \<Rightarrow> string" where
  "trim s = rev (dropWhile isSpace (rev (dropWhile isSpace s)))"

text \<open>\<^verbatim>\<open>String.prototype.toLowerCase\<close> on ASCII letters.\<close>

definition lowerChar :: "char \<Rightarrow> char" where
  "lowerChar c =
     (if (65::nat) \<le> of_char c \<and> (of_char c :: nat) \<le> 90
      then char_of ((of_char c :: nat) + 32) else c)"

definition toLowerCase :: "string \<Rightarrow> string" where
  "toLowerCase s = map lowerChar s"

text \<open>\<^verbatim>\<open>String.prototype.includes\<close>: the needle occurs as a contiguous run (\<open>includes\<close> is a keyword of Isabelle, hence the suffix).\<close>

fun includesStr :: "string \<Rightarrow> string \<Rightarrow> bool" where
  "includesStr [] needle = (needle = [])"
| "includesStr (c # cs) needle = (prefix needle (c # cs) \<or> includesStr cs needle)"

text \<open>\<^verbatim>\<open>Array.prototype.join\<close>.\<close>

fun join :: "string \<Rightarrow> string list \<Rightarrow> string" where
  "join sep [] = []"
| "join sep [x] = x"
| "join sep (x # y # zs) = x @ sep @ join sep (y # zs)"

text \<open>A loop counter printed inside a template literal: decimal digits, no sign.\<close>

definition digit :: "nat \<Rightarrow> char" where
  "digit d = ''0123456789'' ! d"

fun showNat :: "nat \<Rightarrow> string" where
  "showNat n = (if n < 10 then [digit n] else showNat (n div 10) @ [digit (n mod 10)])"

declare showNat.simps [simp del]

abbreviation nl :: string where
  "nl \<equiv> [CHR 0x0A]"

fun showInt :: "int \<Rightarrow> string" where
  "showInt k = (if k < 0 then ''-'' @ showNat (nat (- k)) else showNat (nat k))"

text \<open>
  An environment for the examples below.  It prints integers as JavaScript does below
  \<open>10^21\<close> and parses nothing; the theorems hold for every environment.
\<close>

definition sampleEnv :: js_env where
  "sampleEnv = \<lparr> parseFloatStr = (\<lambda>s. NaN),
                 numToString = (\<lambda>n. case n of
                     NaN \<Rightarrow> ''NaN''
                   | NegInf \<Rightarrow> ''-Infinity''
                   | PosInf \<Rightarrow> ''Infinity''
                   | Fin r \<Rightarrow> showInt \<lfloor>r\<rfloor>) \<rparr>"

section \<open>The data of \<^verbatim>\<open>LPSolver.vue\<close>\<close>

text \<open>
  \<^verbatim>\<open>interface ProjectLimits { min: number; max: number }\<close>; the fields carry a suffix
  because \<open>min\<close> and \<open>max\<close> are constants of HOL.
\<close>

record ProjectLimits =
  min_limit :: jsnum
  max_limit :: jsnum

record Assignment =
  studentName :: string
  projectIndex :: nat
  weight :: jsnum

text \<open>
  The solver's answer: a status, an objective value and a table of columns by variable
  name.  Each of them may be missing, and a column may have no \<^verbatim>\<open>Primal\<close> field.
\<close>

record Column =
  Primal :: "jsnum option"

record RawResult =
  Status :: "string option"
  ObjectiveValue :: "jsnum option"
  Columns :: "(string \<Rightarrow> Column option) option"

text \<open>
  A thrown value: an \<^verbatim>\<open>Error\<close> with its message, or anything else.
\<close>

datatype thrown = Error string | NonError

text \<open>
  The solver is loaded by a dynamic import and then called on the document; both steps
  may throw.
\<close>

type_synonym highs = "string \<Rightarrow> thrown + RawResult"

record SolverProps =
  tableData :: "(string \<times> cell) list list"
  rawData :: "cell list option list"
  headers :: "string list"
  projectLimits :: "ProjectLimits list"

text \<open>
  The component's reactive state.  Two fields record its effects on the outside:
  \<open>published\<close> is the parent's copy of the solution, which \<^verbatim>\<open>App.vue\<close> overwrites at
  every \<^verbatim>\<open>solution-updated\<close> event, and \<open>submitted\<close> lists the documents handed to
  the solver.
\<close>

record SolverState =
  isSolving :: bool
  solution :: "Assignment list"
  objectiveValue :: "jsnum option"
  solveStatus :: string
  errorMessage :: string
  published :: "Assignment list"
  submitted :: "string list"

definition emit :: "Assignment list \<Rightarrow> SolverState \<Rightarrow> SolverState" where
  "emit a s = s\<lparr>published := a\<rparr>"

definition canSolve :: "SolverProps \<Rightarrow> bool" where
  "canSolve p =
     (length (tableData p) > 0 \<and>
      length (projectLimits p) > 0 \<and>
      int (length (projectLimits p)) = int (length (headers p)) - 1)"

section \<open>Extraction of names and weights (lines 52 to 78)\<close>

text \<open>\<^verbatim>\<open>row[j]\<close>: a read past the end of the array is \<^verbatim>\<open>undefined\<close>.\<close>

definition cellAt :: "cell list \<Rightarrow> nat \<Rightarrow> cell" where
  "cellAt row j = (if j < length row then row ! j else Undefined)"

text \<open>\<^verbatim>\<open>String(row[0] || '').trim()\<close>\<close>

definition studentNameOf :: "js_env \<Rightarrow> cell list \<Rightarrow> string" where
  "studentNameOf env row =
     trim (toStr env (if truthy (cellAt row 0) then cellAt row 0 else Str []))"

text \<open>\<^verbatim>\<open>parseFloat(row[j]) || 0\<close>\<close>

definition weightOf :: "js_env \<Rightarrow> cell list \<Rightarrow> nat \<Rightarrow> jsnum" where
  "weightOf env row j =
     (if truthyNum (parseFloat env (cellAt row j)) then parseFloat env (cellAt row j) else Fin 0)"

text \<open>The inner loop, \<^verbatim>\<open>for (let j = 1; j < props.headers.length; j++)\<close>.\<close>

definition studentWeightsOf :: "js_env \<Rightarrow> nat \<Rightarrow> cell list \<Rightarrow> jsnum list" where
  "studentWeightsOf env headersLength row =
     fold (\<lambda>j studentWeights. studentWeights @ [weightOf env row j]) [1..<headersLength] []"

text \<open>One pass of the outer loop over \<^verbatim>\<open>props.rawData\<close>, with its two \<^verbatim>\<open>continue\<close>s.\<close>

definition extractRow ::
  "js_env \<Rightarrow> nat \<Rightarrow> cell list option \<Rightarrow> string list \<times> jsnum list list
     \<Rightarrow> string list \<times> jsnum list list" where
  "extractRow env headersLength row acc =
     (case row of
        None \<Rightarrow> acc
      | Some r \<Rightarrow>
          if length r = 0 then acc
          else if studentNameOf env r = [] then acc
          else (fst acc @ [studentNameOf env r],
                snd acc @ [studentWeightsOf env headersLength r]))"

definition extractLoop ::
  "js_env \<Rightarrow> string list \<Rightarrow> cell list option list \<Rightarrow> string list \<times> jsnum list list" where
  "extractLoop env hs raw = fold (extractRow env (length hs)) raw ([], [])"

definition extractStudents ::
  "js_env \<Rightarrow> string list \<Rightarrow> cell list option list
     \<Rightarrow> thrown + string list \<times> jsnum list list" where
  "extractStudents env hs raw =
     (if length (fst (extractLoop env hs raw)) = 0
      then Inl (Error ''No valid students found in the data'')
      else Inr (extractLoop env hs raw))"

section \<open>Formulation of the program in LP format (lines 80 to 153)\<close>

definition varName :: "nat \<Rightarrow> nat \<Rightarrow> string" where
  "varName i j = ''x_'' @ showNat i @ ''_'' @ showNat j"

text \<open>\<^verbatim>\<open>weights[i]?.[j] ?? 0\<close>\<close>

definition weightAt :: "jsnum list list \<Rightarrow> nat \<Rightarrow> nat \<Rightarrow> jsnum" where
  "weightAt weights i j =
     (if i < length weights \<and> j < length (weights ! i) then weights ! i ! j else Fin 0)"

text \<open>The objective's terms: students in the outer loop, projects in the inner one.\<close>

definition objectiveTerms :: "js_env \<Rightarrow> jsnum list list \<Rightarrow> nat \<Rightarrow> nat \<Rightarrow> string list" where
  "objectiveTerms env weights numStudents numProjects =
     fold (\<lambda>i. fold (\<lambda>j terms.
             if weightAt weights i j \<noteq> Fin 0
             then terms @ [numToString env (weightAt weights i j) @ '' '' @ varName i j]
             else terms) [0..<numProjects])
       [0..<numStudents] []"

text \<open>Constraint 1: each student is assigned to exactly one project.\<close>

definition studentConstraints :: "nat \<Rightarrow> nat \<Rightarrow> string \<Rightarrow> string" where
  "studentConstraints numStudents numProjects =
     fold (\<lambda>i lpProblem.
             lpProblem @ '' student_'' @ showNat i @ '': '' @
               join '' + '' (fold (\<lambda>j constraintTerms. constraintTerms @ [varName i j])
                                [0..<numProjects] []) @
               '' = 1'' @ nl)
       [0..<numStudents]"

text \<open>
  Constraint 2: the capacities, one pass of the loop over the projects and the loop.
  \<^verbatim>\<open>props.projectLimits[j]\<close> is read after the terms are collected, and a missing entry
  skips the project.
\<close>

definition projectConstraint ::
  "js_env \<Rightarrow> nat \<Rightarrow> ProjectLimits list \<Rightarrow> nat \<Rightarrow> string \<Rightarrow> string" where
  "projectConstraint env numStudents limits j lpProblem =
     (let constraintTerms =
            fold (\<lambda>i constraintTerms. constraintTerms @ [varName i j]) [0..<numStudents] []
      in if \<not> j < length limits then lpProblem
         else
           let minLimit = min_limit (limits ! j);
               maxLimit = max_limit (limits ! j);
               lp1 = (if js_gt minLimit (Fin 0)
                      then lpProblem @ '' project_'' @ showNat j @ ''_min: '' @
                             join '' + '' constraintTerms @ '' >= '' @
                             numToString env minLimit @ nl
                      else lpProblem)
           in if js_lt maxLimit PosInf
              then lp1 @ '' project_'' @ showNat j @ ''_max: '' @
                     join '' + '' constraintTerms @ '' <= '' @
                     numToString env maxLimit @ nl
              else lp1)"

definition projectConstraints ::
  "js_env \<Rightarrow> nat \<Rightarrow> nat \<Rightarrow> ProjectLimits list \<Rightarrow> string \<Rightarrow> string" where
  "projectConstraints env numStudents numProjects limits =
     fold (projectConstraint env numStudents limits) [0..<numProjects]"

definition boundsSection :: "nat \<Rightarrow> nat \<Rightarrow> string \<Rightarrow> string" where
  "boundsSection numStudents numProjects =
     fold (\<lambda>i. fold (\<lambda>j lpProblem. lpProblem @ '' 0 <= '' @ varName i j @ '' <= 1'' @ nl)
                  [0..<numProjects])
       [0..<numStudents]"

definition binarySection :: "nat \<Rightarrow> nat \<Rightarrow> string \<Rightarrow> string" where
  "binarySection numStudents numProjects =
     fold (\<lambda>i. fold (\<lambda>j lpProblem. lpProblem @ '' '' @ varName i j @ nl) [0..<numProjects])
       [0..<numStudents]"

text \<open>The objective's line: the terms joined by \<^verbatim>\<open>+\<close>, or \<^verbatim>\<open>0\<close> when there is none.\<close>

definition objectiveLine :: "string list \<Rightarrow> string" where
  "objectiveLine terms =
     '' '' @ (if length terms > 0 then join '' + '' terms else ''0'') @ nl"

definition buildLP :: "js_env \<Rightarrow> jsnum list list \<Rightarrow> nat \<Rightarrow> ProjectLimits list \<Rightarrow> string" where
  "buildLP env weights numStudents limits =
     (let numProjects = length limits;
          lp1 = ''Minimize'' @ nl @ '' obj:'';
          lp2 = lp1 @ objectiveLine (objectiveTerms env weights numStudents numProjects);
          lp3 = lp2 @ ''Subject To'' @ nl;
          lp4 = studentConstraints numStudents numProjects lp3;
          lp5 = projectConstraints env numStudents numProjects limits lp4;
          lp6 = lp5 @ ''Bounds'' @ nl;
          lp7 = boundsSection numStudents numProjects lp6;
          lp8 = lp7 @ ''Binary'' @ nl;
          lp9 = binarySection numStudents numProjects lp8
      in lp9 @ ''End'')"

text \<open>\<^verbatim>\<open>weights.some(w => w.length !== numProjects)\<close>\<close>

definition inconsistentWeights :: "jsnum list list \<Rightarrow> nat \<Rightarrow> bool" where
  "inconsistentWeights weights numProjects = list_ex (\<lambda>w. length w \<noteq> numProjects) weights"

text \<open>The validation of line 84 and the document, or the error thrown at line 85.\<close>

definition formulate ::
  "js_env \<Rightarrow> string list \<Rightarrow> jsnum list list \<Rightarrow> ProjectLimits list \<Rightarrow> thrown + string" where
  "formulate env students weights limits =
     (if inconsistentWeights weights (length limits)
      then Inl (Error ''Inconsistent number of project weights'')
      else Inr (buildLP env weights (length students) limits))"

section \<open>Decoding the solver's result (lines 176 to 212)\<close>

text \<open>\<^verbatim>\<open>result.Status || ''\<close> and the test of line 180.\<close>

definition statusOf :: "RawResult \<Rightarrow> string" where
  "statusOf result = (case Status result of None \<Rightarrow> [] | Some st \<Rightarrow> st)"

definition isOptimalOrFeasible :: "RawResult \<Rightarrow> bool" where
  "isOptimalOrFeasible result =
     (statusOf result = ''Optimal'' \<or> includesStr (toLowerCase (statusOf result)) ''feasible'')"

text \<open>
  The test of line 196 on \<^verbatim>\<open>result.Columns?.[varName]\<close>: the column exists, has a
  \<^verbatim>\<open>Primal\<close> that is not \<^verbatim>\<open>undefined\<close>, and it exceeds one half.
\<close>

definition assigned :: "RawResult \<Rightarrow> nat \<Rightarrow> nat \<Rightarrow> bool" where
  "assigned result i j =
     (case Columns result of
        None \<Rightarrow> False
      | Some cols \<Rightarrow>
          (case cols (varName i j) of
             None \<Rightarrow> False
           | Some column \<Rightarrow>
               (case Primal column of
                  None \<Rightarrow> False
                | Some p \<Rightarrow> js_gt p (Fin 0.5))))"

text \<open>
  The two loops of lines 187 to 205: one pass of the outer loop, and the loop.  A student
  whose name is empty or missing, or who has no row of weights, is skipped;
  \<^verbatim>\<open>studentWeights[j] ?? 0\<close> reads the weight.
\<close>

definition studentAssignments ::
  "RawResult \<Rightarrow> string list \<Rightarrow> jsnum list list \<Rightarrow> nat \<Rightarrow> nat \<Rightarrow> Assignment list
     \<Rightarrow> Assignment list" where
  "studentAssignments result students weights numProjects i assignments =
     (if \<not> i < length students \<or> students ! i = [] \<or> \<not> i < length weights
      then assignments
      else fold (\<lambda>j assignments.
              if assigned result i j
              then assignments @
                     [\<lparr> studentName = students ! i,
                        projectIndex = j,
                        weight = (if j < length (weights ! i)
                                  then weights ! i ! j else Fin 0) \<rparr>]
              else assignments) [0..<numProjects] assignments)"

definition extractAssignments ::
  "RawResult \<Rightarrow> string list \<Rightarrow> jsnum list list \<Rightarrow> nat \<Rightarrow> nat \<Rightarrow> Assignment list" where
  "extractAssignments result students weights numStudents numProjects =
     fold (studentAssignments result students weights numProjects) [0..<numStudents] []"

text \<open>What follows the call of the solver, on the component's state.\<close>

definition decode ::
  "RawResult \<Rightarrow> string list \<Rightarrow> jsnum list list \<Rightarrow> nat \<Rightarrow> SolverState \<Rightarrow> SolverState" where
  "decode result students weights numProjects s =
     (let s1 = s\<lparr>solveStatus :=
                   (if statusOf result = [] then ''Unknown'' else statusOf result)\<rparr>
      in if isOptimalOrFeasible result
         then
           let s2 = s1\<lparr>objectiveValue :=
                         Some (case ObjectiveValue result of None \<Rightarrow> Fin 0 | Some v \<Rightarrow> v)\<rparr>;
               assignments =
                 extractAssignments result students weights (length students) numProjects
           in emit assignments (s2\<lparr>solution := assignments\<rparr>)
         else
           emit [] (s1\<lparr>errorMessage :=
                        ''Solver status: '' @
                        (case Status result of None \<Rightarrow> ''undefined'' | Some st \<Rightarrow> st) @
                        ''. The problem may be infeasible or unbounded.''\<rparr>))"

section \<open>The pipeline \<^verbatim>\<open>solve\<close> (lines 39 to 220)\<close>

text \<open>
  The body of the \<^verbatim>\<open>try\<close> block: the state when it is left, and what was thrown, if
  anything.
\<close>

definition tryBody ::
  "js_env \<Rightarrow> thrown + highs \<Rightarrow> SolverProps \<Rightarrow> SolverState \<Rightarrow> thrown option \<times> SolverState" where
  "tryBody env loader p s =
     (case extractStudents env (headers p) (rawData p) of
        Inl e \<Rightarrow> (Some e, s)
      | Inr (students, weights) \<Rightarrow>
          (case formulate env students weights (projectLimits p) of
             Inl e \<Rightarrow> (Some e, s)
           | Inr lpProblem \<Rightarrow>
               (case loader of
                  Inl e \<Rightarrow> (Some e, s)
                | Inr highs \<Rightarrow>
                    (case highs lpProblem of
                       Inl e \<Rightarrow> (Some e, s\<lparr>submitted := submitted s @ [lpProblem]\<rparr>)
                     | Inr result \<Rightarrow>
                         (None,
                          decode result students weights (length (projectLimits p))
                            (s\<lparr>submitted := submitted s @ [lpProblem]\<rparr>))))))"

text \<open>The message the \<^verbatim>\<open>catch\<close> block shows.\<close>

definition messageOf :: "thrown \<Rightarrow> string" where
  "messageOf e = (case e of Error m \<Rightarrow> m | NonError \<Rightarrow> ''Unknown error occurred'')"

text \<open>Lines 45 to 49: the state is cleared before the \<^verbatim>\<open>try\<close> block is entered.\<close>

definition startSolving :: "SolverState \<Rightarrow> SolverState" where
  "startSolving s =
     s\<lparr>isSolving := True, errorMessage := [], solution := [],
       objectiveValue := None, solveStatus := []\<rparr>"

text \<open>
  The guard, the \<^verbatim>\<open>try\<close> block, the \<^verbatim>\<open>catch\<close> block that turns whatever was thrown into
  the error message, and the \<^verbatim>\<open>finally\<close> block.
\<close>

definition solve :: "js_env \<Rightarrow> thrown + highs \<Rightarrow> SolverProps \<Rightarrow> SolverState \<Rightarrow> SolverState" where
  "solve env loader p s =
     (if \<not> canSolve p
      then s\<lparr>errorMessage := ''Cannot solve: Missing data or project limits''\<rparr>
      else
        let r = tryBody env loader p (startSolving s);
            s1 = (case fst r of
                    None \<Rightarrow> snd r
                  | Some e \<Rightarrow> (snd r)\<lparr>errorMessage := messageOf e\<rparr>)
        in s1\<lparr>isSolving := False\<rparr>)"

section \<open>The capacity editor (\<^verbatim>\<open>ProjectConfig.vue\<close>)\<close>

text \<open>\<^verbatim>\<open>Math.max\<close> of two numbers: \<open>NaN\<close> as soon as one of them is.\<close>

definition js_max :: "jsnum \<Rightarrow> jsnum \<Rightarrow> jsnum" where
  "js_max a b = (if a = NaN \<or> b = NaN then NaN else if js_lt a b then b else a)"

text \<open>
  \<^verbatim>\<open>updateMin\<close> and \<^verbatim>\<open>updateMax\<close>, on the entry of the list that they change: the new
  bound is clamped at zero and the other bound follows it when the two would cross.
\<close>

definition updateMin :: "ProjectLimits \<Rightarrow> jsnum \<Rightarrow> ProjectLimits" where
  "updateMin l v =
     (let l1 = l\<lparr>min_limit := js_max (Fin 0) v\<rparr>
      in if js_gt (min_limit l1) (max_limit l1) then l1\<lparr>max_limit := min_limit l1\<rparr> else l1)"

definition updateMax :: "ProjectLimits \<Rightarrow> jsnum \<Rightarrow> ProjectLimits" where
  "updateMax l v =
     (let l1 = l\<lparr>max_limit := js_max (Fin 0) v\<rparr>
      in if js_lt (max_limit l1) (min_limit l1) then l1\<lparr>min_limit := max_limit l1\<rparr> else l1)"

section \<open>Notions used in the statements\<close>

text \<open>
  A row is kept by the extraction when it exists, is not empty and its first cell gives a
  name that is not empty: the negation of the two \<^verbatim>\<open>continue\<close> tests of lines 58 and 62.
\<close>

definition keepsRow :: "js_env \<Rightarrow> cell list option \<Rightarrow> bool" where
  "keepsRow env row =
     (case row of None \<Rightarrow> False | Some r \<Rightarrow> r \<noteq> [] \<and> studentNameOf env r \<noteq> [])"

text \<open>The Assignment of a pair of indices, with the weight of the matrix at that pair.\<close>

definition assignmentOf :: "string list \<Rightarrow> jsnum list list \<Rightarrow> nat \<Rightarrow> nat \<Rightarrow> Assignment" where
  "assignmentOf students weights i j =
     \<lparr> studentName = students ! i, projectIndex = j, weight = weights ! i ! j \<rparr>"

text \<open>
  What the extraction and the validation of line 84 establish about the names and the
  matrix before the decoder runs.
\<close>

definition wellFormed :: "string list \<Rightarrow> jsnum list list \<Rightarrow> nat \<Rightarrow> bool" where
  "wellFormed students weights numProjects =
     (length weights = length students \<and>
      list_all (\<lambda>name. name \<noteq> []) students \<and>
      list_all (\<lambda>w. length w = numProjects) weights)"

text \<open>The Assignments in which a name appears.\<close>

definition assignmentsOf :: "string \<Rightarrow> Assignment list \<Rightarrow> Assignment list" where
  "assignmentsOf name assignments = filter (\<lambda>a. studentName a = name) assignments"

text \<open>
  The constraints as the specification words them: the one-hot constraint of student
  \<open>i\<close>, and the lower and the upper bound of project \<open>j\<close>.
\<close>

definition oneHotConstraint :: "nat \<Rightarrow> nat \<Rightarrow> string" where
  "oneHotConstraint numProjects i =
     '' student_'' @ showNat i @ '': '' @
     join '' + '' (map (\<lambda>j. varName i j) [0..<numProjects]) @ '' = 1'' @ nl"

definition lowerBoundConstraint :: "js_env \<Rightarrow> nat \<Rightarrow> nat \<Rightarrow> jsnum \<Rightarrow> string" where
  "lowerBoundConstraint env numStudents j minCapacity =
     '' project_'' @ showNat j @ ''_min: '' @
     join '' + '' (map (\<lambda>i. varName i j) [0..<numStudents]) @ '' >= '' @
     numToString env minCapacity @ nl"

definition upperBoundConstraint :: "js_env \<Rightarrow> nat \<Rightarrow> nat \<Rightarrow> jsnum \<Rightarrow> string" where
  "upperBoundConstraint env numStudents j maxCapacity =
     '' project_'' @ showNat j @ ''_max: '' @
     join '' + '' (map (\<lambda>i. varName i j) [0..<numStudents]) @ '' <= '' @
     numToString env maxCapacity @ nl"

definition isFinite :: "jsnum \<Rightarrow> bool" where
  "isFinite n = (case n of Fin r \<Rightarrow> True | _ \<Rightarrow> False)"

text \<open>\<^verbatim>\<open>a <= b\<close> on numbers.\<close>

definition js_le :: "jsnum \<Rightarrow> jsnum \<Rightarrow> bool" where
  "js_le a b = (js_lt a b \<or> (a = b \<and> a \<noteq> NaN))"

text \<open>
  The invariant of a project in the data model: the minimum is at least zero and at most
  the maximum.
\<close>

definition projectInvariant :: "ProjectLimits \<Rightarrow> bool" where
  "projectInvariant l = (js_le (Fin 0) (min_limit l) \<and> js_le (min_limit l) (max_limit l))"

text \<open>
  The capacity constraints of project \<open>j\<close> as the specification words them: a lower
  bound when the minimum is positive, an upper bound when the maximum is finite.
\<close>

definition capacityConstraints :: "js_env \<Rightarrow> nat \<Rightarrow> nat \<Rightarrow> ProjectLimits \<Rightarrow> string" where
  "capacityConstraints env numStudents j l =
     (if js_gt (min_limit l) (Fin 0)
      then lowerBoundConstraint env numStudents j (min_limit l) else []) @
     (if isFinite (max_limit l)
      then upperBoundConstraint env numStudents j (max_limit l) else [])"

text \<open>The text of the last two sections of the document.\<close>

definition boundsText :: "nat \<Rightarrow> nat \<Rightarrow> string" where
  "boundsText nS nP =
     concat (map (\<lambda>i. concat (map (\<lambda>j. '' 0 <= '' @ varName i j @ '' <= 1'' @ nl) [0..<nP]))
       [0..<nS])"

definition binaryText :: "nat \<Rightarrow> nat \<Rightarrow> string" where
  "binaryText nS nP =
     concat (map (\<lambda>i. concat (map (\<lambda>j. '' '' @ varName i j @ nl) [0..<nP])) [0..<nS])"

text \<open>Reading a decimal numeral back, to tell the names of the variables apart.\<close>

definition digitVal :: "char \<Rightarrow> nat" where
  "digitVal c = of_char c - 48"

definition readNat :: "string \<Rightarrow> nat" where
  "readNat s = foldl (\<lambda>acc c. 10 * acc + digitVal c) 0 s"

subsection \<open>Sample data\<close>

text \<open>
  The scenario of two students and two projects: Ana and Bo, weights 5, 0 and 0, 3, and
  at most one student per project.
\<close>

definition sampleHeaders :: "string list" where
  "sampleHeaders = [''Name'', ''P1'', ''P2'']"

definition sampleRows :: "cell list option list" where
  "sampleRows =
     [Some [Str ''Ana '', Number (Fin 5), Str ''n/a''],
      None,
      Some [],
      Some [Str ''  '', Number (Fin 1), Number (Fin 2)],
      Some [Number (Fin 0), Number (Fin 1), Number (Fin 2)],
      Some [Str ''Bo'', Number (Fin 0), Number (Fin 3)]]"

definition sampleStudents :: "string list" where
  "sampleStudents = [''Ana'', ''Bo'']"

definition sampleWeights :: "jsnum list list" where
  "sampleWeights = [[Fin 5, Fin 0], [Fin 0, Fin 3]]"

definition sampleLimits :: "ProjectLimits list" where
  "sampleLimits = [\<lparr>min_limit = Fin 0, max_limit = Fin 1\<rparr>, \<lparr>min_limit = Fin 0, max_limit = Fin 1\<rparr>]"

definition sampleProps :: SolverProps where
  "sampleProps =
     \<lparr> tableData = [[(''Column 1'', Str ''Ana '')], [(''Column 1'', Str ''Bo'')]],
       rawData = sampleRows,
       headers = sampleHeaders,
       projectLimits = sampleLimits \<rparr>"

definition optimalResult :: RawResult where
  "optimalResult =
     \<lparr> Status = Some ''Optimal'', ObjectiveValue = Some (Fin 5),
       Columns = Some (map_of
         [(''x_0_0'', \<lparr>Primal = Some (Fin 1)\<rparr>),
          (''x_0_1'', \<lparr>Primal = Some (Fin 0)\<rparr>),
          (''x_1_1'', \<lparr>Primal = Some (Fin 0.9)\<rparr>)]) \<rparr>"

definition unboundedResult :: RawResult where
  "unboundedResult = \<lparr> Status = Some ''Unbounded'', ObjectiveValue = None, Columns = None \<rparr>"

definition idleState :: SolverState where
  "idleState = \<lparr> isSolving = False, solution = [], objectiveValue = None, solveStatus = [],
                 errorMessage = [], published = [], submitted = [] \<rparr>"

text \<open>The state after an earlier successful solve.\<close>

definition solvedState :: SolverState where
  "solvedState =
     \<lparr> isSolving = False,
       solution = [\<lparr>studentName = ''Ana'', projectIndex = 0, weight = Fin 5\<rparr>],
       objectiveValue = Some (Fin 5), solveStatus = ''Optimal'', errorMessage = [],
       published = [\<lparr>studentName = ''Ana'', projectIndex = 0, weight = Fin 5\<rparr>],
       submitted = [] \<rparr>"

text \<open>A solver that loads and answers every document with the given result.\<close>

definition answering :: "RawResult \<Rightarrow> thrown + highs" where
  "answering result = Inr (\<lambda>doc. Inr result)"

text \<open>
  A result with status \<^verbatim>\<open>Optimal\<close> that marks two projects for the first student and none
  for the second.
\<close>

definition inconsistentResult :: RawResult where
  "inconsistentResult =
     \<lparr> Status = Some ''Optimal'', ObjectiveValue = Some (Fin 5),
       Columns = Some (map_of
         [(''x_0_0'', \<lparr>Primal = Some (Fin 1)\<rparr>),
          (''x_0_1'', \<lparr>Primal = Some (Fin 1)\<rparr>),
          (''x_1_0'', \<lparr>Primal = Some (Fin 0)\<rparr>),
          (''x_1_1'', \<lparr>Primal = None\<rparr>)]) \<rparr>"

text \<open>
  The answer of HiGHS to a program without a solution: the status \<^verbatim>\<open>Infeasible\<close> and
  columns without \<^verbatim>\<open>Primal\<close>.
\<close>

definition infeasibleResult :: RawResult where
  "infeasibleResult =
     \<lparr> Status = Some ''Infeasible'', ObjectiveValue = Some (Fin 0),
       Columns = Some (map_of [(''x_0_0'', \<lparr>Primal = None\<rparr>)]) \<rparr>"

text \<open>One student, one project whose minimum of two exceeds the number of students.\<close>

definition overfullProps :: SolverProps where
  "overfullProps =
     \<lparr> tableData = [[(''Column 1'', Str ''Ana''), (''Column 2'', Number (Fin 5))]],
       rawData = [Some [Str ''Ana'', Number (Fin 5)]],
       headers = [''Column 1'', ''Column 2''],
       projectLimits = [\<lparr>min_limit = Fin 2, max_limit = Fin 10\<rparr>] \<rparr>"

text \<open>Three projects, but only two capacity limits.\<close>

definition mismatchedProps :: SolverProps where
  "mismatchedProps =
     \<lparr> tableData = [[(''Column 1'', Str ''Ana'')]],
       rawData = [Some [Str ''Ana'', Number (Fin 1), Number (Fin 2), Number (Fin 3)]],
       headers = [''Column 1'', ''Column 2'', ''Column 3'', ''Column 4''],
       projectLimits = sampleLimits \<rparr>"

text \<open>A solver that fails to load, and one that loads and throws on every document.\<close>

definition unavailable :: "thrown + highs" where
  "unavailable = Inl (Error ''Failed to fetch dynamically imported module'')"

definition throwing :: "thrown + highs" where
  "throwing = Inr (\<lambda>doc. Inl (Error ''Unable to read LP model''))"

text \<open>The state of the component after a failure: cleared, idle, with a message.\<close>

definition clearedWith :: "string \<Rightarrow> SolverState \<Rightarrow> bool" where
  "clearedWith message s =
     (solution s = [] \<and> objectiveValue s = None \<and> solveStatus s = [] \<and>
      \<not> isSolving s \<and> errorMessage s = message)"

text \<open>Data whose rows are all skipped, though the guard holds.\<close>

definition blankProps :: SolverProps where
  "blankProps =
     \<lparr> tableData = [[(''Column 1'', Str ''  '')]],
       rawData = [None, Some [], Some [Str ''  '', Number (Fin 1), Number (Fin 2)]],
       headers = sampleHeaders,
       projectLimits = sampleLimits \<rparr>"

section \<open>Loops as list functions\<close>

text \<open>
  Every loop of the component pushes onto an array or appends to a string.  The lemmas
  of this section give such loops in closed form.
\<close>

lemma fold_snoc_concat:
  "fold (\<lambda>x acc. acc @ g x) xs acc = acc @ concat (map g xs)"
  by (induction xs arbitrary: acc) simp_all

lemma fold_snoc_map:
  "fold (\<lambda>x acc. acc @ [f x]) xs acc = acc @ map f xs"
  by (induction xs arbitrary: acc) simp_all

lemma fold_snoc_filter:
  "fold (\<lambda>x acc. if P x then acc @ [f x] else acc) xs acc = acc @ map f (filter P xs)"
  by (induction xs arbitrary: acc) simp_all

lemma fold_fold_snoc:
  "fold (\<lambda>i. fold (\<lambda>j acc. acc @ g i j) ys) xs acc =
     acc @ concat (map (\<lambda>i. concat (map (g i) ys)) xs)"
  by (induction xs arbitrary: acc) (simp_all add: fold_snoc_concat)

lemma fold_fold_filter:
  "fold (\<lambda>i. fold (\<lambda>j acc. if P i j then acc @ [f i j] else acc) ys) xs acc =
     acc @ concat (map (\<lambda>i. map (f i) (filter (P i) ys)) xs)"
  by (induction xs arbitrary: acc) (simp_all add: fold_snoc_filter)

lemma product_concat:
  "map f (filter P (List.product xs ys)) =
     concat (map (\<lambda>i. map (\<lambda>j. f (i, j)) (filter (\<lambda>j. P (i, j)) ys)) xs)"
  by (induction xs) (simp_all add: filter_map comp_def)

lemma concat_map_only:
  "i < n \<Longrightarrow> concat (map (\<lambda>k. if k = i then f k else []) [0..<n]) = f i"
proof (induction n)
  case 0
  then show ?case by simp
next
  case (Suc n)
  show ?case
  proof (cases "i = n")
    case True
    have "concat (map (\<lambda>k. if k = i then f k else []) [0..<n]) = []"
      using True by simp
    with True show ?thesis by simp
  next
    case False
    with Suc show ?thesis by simp
  qed
qed

lemma length_filter_one:
  assumes "j < n" "P j" "\<forall>k < n. P k \<longrightarrow> k = j"
  shows "length (filter P [0..<n]) = 1"
proof -
  have "{x. P x} \<inter> set [0..<n] = {j}"
  proof
    show "{x. P x} \<inter> set [0..<n] \<subseteq> {j}"
    proof
      fix x
      assume "x \<in> {x. P x} \<inter> set [0..<n]"
      then have "P x" "x < n" by simp_all
      with assms(3) have "x = j" by blast
      then show "x \<in> {j}" by simp
    qed
    show "{j} \<subseteq> {x. P x} \<inter> set [0..<n]"
      using assms(1,2) by simp
  qed
  moreover have "length (filter P [0..<n]) = card ({x. P x} \<inter> set [0..<n])"
    by (rule distinct_length_filter) simp
  ultimately show ?thesis
    by simp
qed

section \<open>Strings\<close>

lemma includesStr_iff: "includesStr s n \<longleftrightarrow> (\<exists>p q. s = p @ n @ q)"
proof (induction s)
  case Nil
  then show ?case by auto
next
  case (Cons c cs)
  show ?case
  proof
    assume "includesStr (c # cs) n"
    then consider "prefix n (c # cs)" | "includesStr cs n" by auto
    then show "\<exists>p q. c # cs = p @ n @ q"
    proof cases
      case 1
      then obtain q where "c # cs = n @ q" by (auto simp: prefix_def)
      then have "c # cs = [] @ n @ q" by simp
      then show ?thesis by blast
    next
      case 2
      with Cons.IH obtain p q where "cs = p @ n @ q" by blast
      then have "c # cs = (c # p) @ n @ q" by simp
      then show ?thesis by blast
    qed
  next
    assume "\<exists>p q. c # cs = p @ n @ q"
    then obtain p q where pq: "c # cs = p @ n @ q" by blast
    show "includesStr (c # cs) n"
    proof (cases p)
      case Nil
      with pq have "prefix n (c # cs)" by (simp add: prefix_def)
      then show ?thesis by simp
    next
      case (Cons a p')
      with pq have "cs = p' @ n @ q" by simp
      with Cons.IH have "includesStr cs n" by blast
      then show ?thesis by simp
    qed
  qed
qed



subsection \<open>The names of the variables\<close>

lemma digitVal_digit: "d < 10 \<Longrightarrow> digitVal (digit d) = d"
proof -
  assume "d < 10"
  then have "d \<in> {0, 1, 2, 3, 4, 5, 6, 7, 8, 9}" by auto
  then show ?thesis
    by (auto simp: digitVal_def digit_def)
qed

lemma readNat_showNat: "readNat (showNat n) = n"
proof (induction n rule: showNat.induct)
  case (1 n)
  show ?case
  proof (cases "n < 10")
    case True
    then show ?thesis
      by (subst showNat.simps) (simp add: readNat_def digitVal_digit)
  next
    case False
    with 1 have "readNat (showNat (n div 10)) = n div 10" by simp
    with False show ?thesis
      by (subst showNat.simps) (simp add: readNat_def digitVal_digit)
  qed
qed

lemma showNat_inj: "showNat m = showNat n \<Longrightarrow> m = n"
  by (metis readNat_showNat)

lemma digit_not_underscore: "d < 10 \<Longrightarrow> digit d \<noteq> CHR ''_''"
proof -
  assume "d < 10"
  then have "d \<in> {0, 1, 2, 3, 4, 5, 6, 7, 8, 9}" by auto
  then show ?thesis
    by (auto simp: digit_def)
qed

lemma showNat_no_underscore: "CHR ''_'' \<notin> set (showNat n)"
proof (induction n rule: showNat.induct)
  case (1 n)
  show ?case
  proof (cases "n < 10")
    case True
    then show ?thesis
      by (subst showNat.simps) (simp add: digit_not_underscore [symmetric])
  next
    case False
    with 1 have "CHR ''_'' \<notin> set (showNat (n div 10))" by simp
    moreover have "digit (n mod 10) \<noteq> CHR ''_''"
      by (rule digit_not_underscore) simp
    ultimately show ?thesis
      using False by (subst showNat.simps) auto
  qed
qed

lemma split_at_separator:
  assumes "c \<notin> set a" "c \<notin> set a'" "a @ c # b = a' @ c # b'"
  shows "a = a' \<and> b = b'"
proof -
  have tw: "takeWhile (\<lambda>x. x \<noteq> c) (u @ c # v) = u" if "c \<notin> set u" for u v
  proof -
    from that have "\<forall>x \<in> set u. x \<noteq> c" by blast
    then have "takeWhile (\<lambda>x. x \<noteq> c) u = u" by simp
    then show ?thesis by (simp add: takeWhile_tail)
  qed
  from tw [OF assms(1), of b] tw [OF assms(2), of b'] assms(3) have "a = a'"
    by simp
  with assms(3) show ?thesis by simp
qed

lemma varName_inj: "varName i j = varName i' j' \<Longrightarrow> i = i' \<and> j = j'"
proof -
  assume "varName i j = varName i' j'"
  then have "showNat i @ CHR ''_'' # showNat j = showNat i' @ CHR ''_'' # showNat j'"
    by (simp add: varName_def)
  from split_at_separator [OF showNat_no_underscore showNat_no_underscore this]
  have "showNat i = showNat i'" and "showNat j = showNat j'"
    by simp_all
  then show ?thesis
    by (blast dest: showNat_inj)
qed

section \<open>The extraction in closed form\<close>

lemma studentWeightsOf_map:
  "studentWeightsOf env n row = map (weightOf env row) [1..<n]"
  by (simp add: studentWeightsOf_def fold_snoc_map)

lemma length_studentWeightsOf: "length (studentWeightsOf env n row) = n - 1"
  by (simp add: studentWeightsOf_map)

lemma extractRow_cases:
  "extractRow env n row acc =
     (if keepsRow env row
      then (fst acc @ [studentNameOf env (the row)], snd acc @ [studentWeightsOf env n (the row)])
      else acc)"
  by (simp add: extractRow_def keepsRow_def split: option.splits)

lemma fold_extractRow:
  "fold (extractRow env n) raw acc =
     (fst acc @ map (\<lambda>row. studentNameOf env (the row)) (filter (keepsRow env) raw),
      snd acc @ map (\<lambda>row. studentWeightsOf env n (the row)) (filter (keepsRow env) raw))"
  by (induction raw arbitrary: acc) (simp_all add: extractRow_cases)

lemma extractLoop_closed:
  "extractLoop env hs raw =
     (map (\<lambda>row. studentNameOf env (the row)) (filter (keepsRow env) raw),
      map (\<lambda>row. studentWeightsOf env (length hs) (the row)) (filter (keepsRow env) raw))"
  by (simp add: extractLoop_def fold_extractRow)

lemma extractStudents_closed:
  "extractStudents env hs raw =
     (if filter (keepsRow env) raw = []
      then Inl (Error ''No valid students found in the data'')
      else Inr (map (\<lambda>row. studentNameOf env (the row)) (filter (keepsRow env) raw),
                map (\<lambda>row. studentWeightsOf env (length hs) (the row))
                  (filter (keepsRow env) raw)))"
  by (simp add: extractStudents_def extractLoop_closed)






lemma extractStudents_wellFormed:
  assumes "extractStudents env hs raw = Inr (students, weights)"
  shows "wellFormed students weights (length hs - 1)" and "students \<noteq> []"
proof -
  let ?kept = "filter (keepsRow env) raw"
  from assms have ne: "?kept \<noteq> []"
    and st: "students = map (\<lambda>row. studentNameOf env (the row)) ?kept"
    and ws: "weights = map (\<lambda>row. studentWeightsOf env (length hs) (the row)) ?kept"
    by (simp_all add: extractStudents_closed split: if_splits)
  have "studentNameOf env (the row) \<noteq> []" if "keepsRow env row" for row
    using that by (cases row) (simp_all add: keepsRow_def)
  then have "list_all (\<lambda>name. name \<noteq> []) students"
    by (auto simp: st list_all_iff)
  moreover have "list_all (\<lambda>w. length w = length hs - 1) weights"
    by (simp add: ws list_all_iff length_studentWeightsOf)
  ultimately show "wellFormed students weights (length hs - 1)"
    by (simp add: wellFormed_def st ws)
  from ne show "students \<noteq> []"
    by (simp add: st)
qed

section \<open>The document in closed form\<close>

lemma objectiveTerms_concat:
  "objectiveTerms env weights nS nP =
     concat (map (\<lambda>i. map (\<lambda>j. numToString env (weightAt weights i j) @ '' '' @ varName i j)
                         (filter (\<lambda>j. weightAt weights i j \<noteq> Fin 0) [0..<nP])) [0..<nS])"
  unfolding objectiveTerms_def by (simp add: fold_fold_filter)

lemma objectiveTerms_product:
  "objectiveTerms env weights nS nP =
     map (\<lambda>(i, j). numToString env (weightAt weights i j) @ '' '' @ varName i j)
       (filter (\<lambda>(i, j). weightAt weights i j \<noteq> Fin 0) (List.product [0..<nS] [0..<nP]))"
  by (simp add: objectiveTerms_concat product_concat)

lemma studentConstraints_closed:
  "studentConstraints nS nP lp = lp @ concat (map (oneHotConstraint nP) [0..<nS])"
proof -
  have "studentConstraints nS nP lp =
      fold (\<lambda>i acc. acc @ oneHotConstraint nP i) [0..<nS] lp"
    by (simp add: studentConstraints_def oneHotConstraint_def fold_snoc_map)
  then show ?thesis by (simp add: fold_snoc_concat)
qed

lemma lt_PosInf_iff: "m \<noteq> NegInf \<Longrightarrow> js_lt m PosInf \<longleftrightarrow> isFinite m"
  by (cases m) (simp_all add: isFinite_def)

lemma invariant_not_NegInf: "projectInvariant l \<Longrightarrow> max_limit l \<noteq> NegInf"
  by (cases "min_limit l"; cases "max_limit l")
     (auto simp: projectInvariant_def js_le_def)

lemma projectConstraint_closed:
  assumes "j < length limits"
  shows "projectConstraint env nS limits j lp =
     lp @ (if js_gt (min_limit (limits ! j)) (Fin 0)
           then lowerBoundConstraint env nS j (min_limit (limits ! j)) else []) @
          (if js_lt (max_limit (limits ! j)) PosInf
           then upperBoundConstraint env nS j (max_limit (limits ! j)) else [])"
proof -
  have terms: "fold (\<lambda>i constraintTerms. constraintTerms @ [varName i j]) [0..<nS] [] =
      map (\<lambda>i. varName i j) [0..<nS]"
    by (simp add: fold_snoc_map)
  show ?thesis
    using assms
    by (cases "js_gt (min_limit (limits ! j)) (Fin 0)";
        cases "js_lt (max_limit (limits ! j)) PosInf")
       (simp_all add: projectConstraint_def Let_def terms lowerBoundConstraint_def
          upperBoundConstraint_def)
qed

lemma projectConstraint_capacity:
  "j < length limits \<Longrightarrow> max_limit (limits ! j) \<noteq> NegInf \<Longrightarrow>
   projectConstraint env nS limits j lp = lp @ capacityConstraints env nS j (limits ! j)"
  by (simp add: projectConstraint_closed capacityConstraints_def lt_PosInf_iff)

lemma fold_projectConstraint:
  "\<forall>j \<in> set js. j < length limits \<and> max_limit (limits ! j) \<noteq> NegInf \<Longrightarrow>
   fold (projectConstraint env nS limits) js lp =
     lp @ concat (map (\<lambda>j. capacityConstraints env nS j (limits ! j)) js)"
  by (induction js arbitrary: lp) (simp_all add: projectConstraint_capacity)

lemma projectConstraints_closed:
  "\<forall>l \<in> set limits. max_limit l \<noteq> NegInf \<Longrightarrow>
   projectConstraints env nS (length limits) limits lp =
     lp @ concat (map (\<lambda>j. capacityConstraints env nS j (limits ! j)) [0..<length limits])"
  unfolding projectConstraints_def
  by (rule fold_projectConstraint) simp

lemma projectConstraints_code:
  "projectConstraints env nS (length limits) limits lp =
     lp @ concat (map (\<lambda>j.
        (if js_gt (min_limit (limits ! j)) (Fin 0)
         then lowerBoundConstraint env nS j (min_limit (limits ! j)) else []) @
        (if js_lt (max_limit (limits ! j)) PosInf
         then upperBoundConstraint env nS j (max_limit (limits ! j)) else []))
       [0..<length limits])"
proof -
  have "\<forall>j \<in> set js. j < length limits \<Longrightarrow>
      fold (projectConstraint env nS limits) js lp =
        lp @ concat (map (\<lambda>j.
          (if js_gt (min_limit (limits ! j)) (Fin 0)
           then lowerBoundConstraint env nS j (min_limit (limits ! j)) else []) @
          (if js_lt (max_limit (limits ! j)) PosInf
           then upperBoundConstraint env nS j (max_limit (limits ! j)) else [])) js)"
    for js lp
    by (induction js arbitrary: lp) (simp_all add: projectConstraint_closed)
  then show ?thesis
    by (simp add: projectConstraints_def)
qed

lemma boundsSection_closed: "boundsSection nS nP lp = lp @ boundsText nS nP"
  unfolding boundsSection_def boundsText_def by (rule fold_fold_snoc)

lemma binarySection_closed: "binarySection nS nP lp = lp @ binaryText nS nP"
  unfolding binarySection_def binaryText_def by (rule fold_fold_snoc)

lemma buildLP_sections:
  "buildLP env weights nS limits =
     ''Minimize'' @ nl @ '' obj:'' @
     objectiveLine (objectiveTerms env weights nS (length limits)) @
     ''Subject To'' @ nl @
     studentConstraints nS (length limits) [] @
     projectConstraints env nS (length limits) limits [] @
     ''Bounds'' @ nl @ boundsText nS (length limits) @
     ''Binary'' @ nl @ binaryText nS (length limits) @ ''End''"
proof -
  have sc: "studentConstraints nS nP lp = lp @ studentConstraints nS nP []" for nP lp
    by (simp add: studentConstraints_closed)
  have pc: "projectConstraints env nS (length limits) limits lp =
      lp @ projectConstraints env nS (length limits) limits []" for lp
    by (simp add: projectConstraints_code)
  show ?thesis
    unfolding buildLP_def Let_def boundsSection_closed binarySection_closed
    by (subst pc, subst sc) (simp only: append_assoc)
qed

subsection \<open>The capacity editor keeps the invariant\<close>

text \<open>
  The limits start at 0 and 10 for every project and change through \<^verbatim>\<open>updateMin\<close> and
  \<^verbatim>\<open>updateMax\<close> only, with values read by \<^verbatim>\<open>parseInt(...) || 0\<close> or stepped by one.
\<close>

lemma updateMin_invariant:
  "projectInvariant l \<Longrightarrow> v \<noteq> NaN \<Longrightarrow> projectInvariant (updateMin l v)"
  by (cases v; cases "min_limit l"; cases "max_limit l")
     (auto simp: projectInvariant_def updateMin_def js_max_def js_le_def js_gt_def Let_def)

lemma updateMax_invariant:
  "projectInvariant l \<Longrightarrow> v \<noteq> NaN \<Longrightarrow> projectInvariant (updateMax l v)"
  by (cases v; cases "min_limit l"; cases "max_limit l")
     (auto simp: projectInvariant_def updateMax_def js_max_def js_le_def js_gt_def Let_def)

lemma initial_invariant: "projectInvariant \<lparr>min_limit = Fin 0, max_limit = Fin 10\<rparr>"
  by (simp add: projectInvariant_def js_le_def)

section \<open>The decoder in closed form\<close>

lemma studentAssignments_closed:
  assumes "i < length students" "students ! i \<noteq> []" "i < length weights"
    "length (weights ! i) = nP"
  shows "studentAssignments result students weights nP i acc =
     acc @ map (assignmentOf students weights i) (filter (assigned result i) [0..<nP])"
proof -
  have "fold (\<lambda>j assignments.
              if assigned result i j
              then assignments @
                     [\<lparr> studentName = students ! i,
                        projectIndex = j,
                        weight = (if j < length (weights ! i)
                                  then weights ! i ! j else Fin 0) \<rparr>]
              else assignments) [0..<nP] acc =
      acc @ map (\<lambda>j. \<lparr> studentName = students ! i, projectIndex = j,
                        weight = (if j < length (weights ! i)
                                  then weights ! i ! j else Fin 0) \<rparr>)
              (filter (assigned result i) [0..<nP])"
    by (rule fold_snoc_filter)
  also have "map (\<lambda>j. \<lparr> studentName = students ! i, projectIndex = j,
                        weight = (if j < length (weights ! i)
                                  then weights ! i ! j else Fin 0) \<rparr>)
              (filter (assigned result i) [0..<nP]) =
      map (assignmentOf students weights i) (filter (assigned result i) [0..<nP])"
    using assms(4) by (simp add: assignmentOf_def)
  finally show ?thesis
    using assms(1-3) by (simp add: studentAssignments_def)
qed

lemma fold_studentAssignments:
  assumes "\<forall>i \<in> set is. i < length students \<and> students ! i \<noteq> [] \<and> i < length weights \<and>
             length (weights ! i) = nP"
  shows "fold (studentAssignments result students weights nP) is acc =
         acc @ concat (map (\<lambda>i. map (assignmentOf students weights i)
                                   (filter (assigned result i) [0..<nP])) is)"
  using assms
  by (induction "is" arbitrary: acc) (simp_all add: studentAssignments_closed)

lemma extractAssignments_concat:
  assumes "wellFormed students weights nP"
  shows "extractAssignments result students weights (length students) nP =
     concat (map (\<lambda>i. map (assignmentOf students weights i)
                         (filter (assigned result i) [0..<nP])) [0..<length students])"
proof -
  from assms have "\<forall>i \<in> set [0..<length students].
      i < length students \<and> students ! i \<noteq> [] \<and> i < length weights \<and> length (weights ! i) = nP"
    by (auto simp: wellFormed_def list_all_iff)
  from fold_studentAssignments [OF this, of result "[]"] show ?thesis
    by (simp add: extractAssignments_def)
qed

lemma extractAssignments_product:
  assumes "wellFormed students weights nP"
  shows "extractAssignments result students weights (length students) nP =
     map (\<lambda>(i, j). assignmentOf students weights i j)
       (filter (\<lambda>(i, j). assigned result i j) (List.product [0..<length students] [0..<nP]))"
  by (simp add: extractAssignments_concat [OF assms] product_concat)

lemma assigned_iff:
  "assigned result i j \<longleftrightarrow>
     (\<exists>cols column p. Columns result = Some cols \<and> cols (varName i j) = Some column \<and>
        Primal column = Some p \<and> js_gt p (Fin 0.5))"
  by (auto simp: assigned_def split: option.splits)

lemma assignmentsOf_student:
  assumes wf: "wellFormed students weights nP" and d: "distinct students"
    and i: "i < length students"
  shows "assignmentsOf (students ! i)
           (extractAssignments result students weights (length students) nP) =
         map (assignmentOf students weights i) (filter (assigned result i) [0..<nP])"
proof -
  have one: "filter (\<lambda>a. studentName a = students ! i)
        (map (assignmentOf students weights k) (filter (assigned result k) [0..<nP])) =
      (if k = i then map (assignmentOf students weights k) (filter (assigned result k) [0..<nP])
       else [])"
    if "k < length students" for k
    using that d i by (auto simp: filter_map comp_def assignmentOf_def nth_eq_iff_index_eq)
  have "assignmentsOf (students ! i)
           (extractAssignments result students weights (length students) nP) =
      concat (map (\<lambda>k. filter (\<lambda>a. studentName a = students ! i)
        (map (assignmentOf students weights k) (filter (assigned result k) [0..<nP])))
        [0..<length students])"
    by (simp add: assignmentsOf_def extractAssignments_concat [OF wf] filter_concat comp_def)
  also have "\<dots> = concat (map (\<lambda>k. if k = i
        then map (assignmentOf students weights k) (filter (assigned result k) [0..<nP])
        else []) [0..<length students])"
    by (rule arg_cong [where f = concat]) (simp add: one)
  also have "\<dots> = map (assignmentOf students weights i) (filter (assigned result i) [0..<nP])"
    by (rule concat_map_only [OF i])
  finally show ?thesis .
qed

lemma decode_rejected:
  "\<not> isOptimalOrFeasible result \<Longrightarrow>
     decode result students weights n s =
       s\<lparr>solveStatus := (if statusOf result = [] then ''Unknown'' else statusOf result),
         errorMessage := ''Solver status: '' @
                        (case Status result of None \<Rightarrow> ''undefined'' | Some st \<Rightarrow> st) @
                        ''. The problem may be infeasible or unbounded.'',
         published := []\<rparr>"
  by (simp add: decode_def emit_def Let_def)

lemma decode_accepted:
  "isOptimalOrFeasible result \<Longrightarrow>
     decode result students weights n s =
       s\<lparr>solveStatus := (if statusOf result = [] then ''Unknown'' else statusOf result),
         objectiveValue := Some (case ObjectiveValue result of None \<Rightarrow> Fin 0 | Some v \<Rightarrow> v),
         solution := extractAssignments result students weights (length students) n,
         published := extractAssignments result students weights (length students) n\<rparr>"
  by (simp add: decode_def emit_def Let_def)

section \<open>The paths through the pipeline\<close>

lemma solve_blocked:
  "\<not> canSolve p \<Longrightarrow>
   solve env loader p s = s\<lparr>errorMessage := ''Cannot solve: Missing data or project limits''\<rparr>"
  by (simp add: solve_def)

lemma canSolve_projects:
  "canSolve p \<Longrightarrow> length (projectLimits p) = length (headers p) - 1"
  unfolding canSolve_def by linarith

lemma canSolve_consistent:
  assumes "canSolve p" "extractStudents env (headers p) (rawData p) = Inr (students, weights)"
  shows "\<not> inconsistentWeights weights (length (projectLimits p))"
proof -
  from extractStudents_wellFormed(1) [OF assms(2)] canSolve_projects [OF assms(1)]
  have "list_all (\<lambda>w. length w = length (projectLimits p)) weights"
    by (simp add: wellFormed_def)
  then show ?thesis
    by (simp add: inconsistentWeights_def list_all_iff list_ex_iff)
qed

lemma canSolve_formulate:
  assumes "canSolve p" "extractStudents env (headers p) (rawData p) = Inr (students, weights)"
  shows "formulate env students weights (projectLimits p) =
           Inr (buildLP env weights (length students) (projectLimits p))"
  using canSolve_consistent [OF assms] by (simp add: formulate_def)

lemma tryBody_no_students:
  "extractStudents env (headers p) (rawData p) = Inl e \<Longrightarrow> tryBody env loader p s = (Some e, s)"
  by (simp add: tryBody_def)

lemma tryBody_load_fails:
  assumes "canSolve p" "extractStudents env (headers p) (rawData p) = Inr (students, weights)"
    "loader = Inl e"
  shows "tryBody env loader p s = (Some e, s)"
  using assms(2,3) canSolve_formulate [OF assms(1,2)] by (simp add: tryBody_def)

lemma tryBody_solver_throws:
  assumes "canSolve p" "extractStudents env (headers p) (rawData p) = Inr (students, weights)"
    "loader = Inr highs"
    "highs (buildLP env weights (length students) (projectLimits p)) = Inl e"
  shows "tryBody env loader p s =
     (Some e, s\<lparr>submitted := submitted s @
        [buildLP env weights (length students) (projectLimits p)]\<rparr>)"
  using assms(2-4) canSolve_formulate [OF assms(1,2)] by (simp add: tryBody_def)

lemma tryBody_returns:
  assumes "canSolve p" "extractStudents env (headers p) (rawData p) = Inr (students, weights)"
    "loader = Inr highs"
    "highs (buildLP env weights (length students) (projectLimits p)) = Inr result"
  shows "tryBody env loader p s =
     (None, decode result students weights (length (projectLimits p))
        (s\<lparr>submitted := submitted s @
           [buildLP env weights (length students) (projectLimits p)]\<rparr>))"
  using assms(2-4) canSolve_formulate [OF assms(1,2)] by (simp add: tryBody_def)

lemma solve_returns:
  assumes "canSolve p" "extractStudents env (headers p) (rawData p) = Inr (students, weights)"
    "loader = Inr highs"
    "highs (buildLP env weights (length students) (projectLimits p)) = Inr result"
  shows "solve env loader p s =
     (decode result students weights (length (projectLimits p))
        ((startSolving s)\<lparr>submitted := submitted s @
           [buildLP env weights (length students) (projectLimits p)]\<rparr>))\<lparr>isSolving := False\<rparr>"
  using assms(1) by (simp add: solve_def tryBody_returns [OF assms] startSolving_def)

lemma tryBody_thrown:
  "fst (tryBody env loader p s) = Some e \<Longrightarrow>
   \<exists>docs. snd (tryBody env loader p s) = s\<lparr>submitted := docs\<rparr>"
proof -
  have same: "s = s\<lparr>submitted := submitted s\<rparr>" by simp
  assume "fst (tryBody env loader p s) = Some e"
  then show ?thesis
    unfolding tryBody_def
    by (auto split: sum.splits prod.splits intro: exI [of _ "submitted s"])
qed

lemma solve_thrown:
  assumes "canSolve p" "fst (tryBody env loader p (startSolving s)) = Some e"
  shows "solution (solve env loader p s) = [] \<and>
         objectiveValue (solve env loader p s) = None \<and>
         solveStatus (solve env loader p s) = [] \<and>
         \<not> isSolving (solve env loader p s) \<and>
         errorMessage (solve env loader p s) = messageOf e"
proof -
  from tryBody_thrown [OF assms(2)] obtain docs
    where "snd (tryBody env loader p (startSolving s)) = (startSolving s)\<lparr>submitted := docs\<rparr>"
    by blast
  with assms show ?thesis
    by (simp add: solve_def Let_def startSolving_def)
qed

text \<open>No event is emitted on these paths: the parent's copy is what it was.\<close>

lemma solve_thrown_published:
  assumes "canSolve p" "fst (tryBody env loader p (startSolving s)) = Some e"
  shows "published (solve env loader p s) = published s"
proof -
  from tryBody_thrown [OF assms(2)] obtain docs
    where "snd (tryBody env loader p (startSolving s)) = (startSolving s)\<lparr>submitted := docs\<rparr>"
    by blast
  with assms show ?thesis
    by (simp add: solve_def Let_def startSolving_def)
qed

section \<open>The claims\<close>

text \<open>
  C1.  The decoder accepts a raw result exactly when its status is \<^verbatim>\<open>Optimal\<close> or, in
  lower case, contains \<^verbatim>\<open>feasible\<close>.  An accepted result has its assignments extracted,
  stored and published.  Every other status publishes the empty list, extracts nothing,
  and at the end of the pipeline the solution is empty.
\<close>

theorem status_classification:
  "(isOptimalOrFeasible result \<longleftrightarrow>
      statusOf result = ''Optimal'' \<or>
      (\<exists>p q. toLowerCase (statusOf result) = p @ ''feasible'' @ q)) \<and>
   (isOptimalOrFeasible result \<longrightarrow>
      solution (decode result students weights n s) =
        extractAssignments result students weights (length students) n \<and>
      published (decode result students weights n s) =
        extractAssignments result students weights (length students) n \<and>
      errorMessage (decode result students weights n s) = errorMessage s) \<and>
   (\<not> isOptimalOrFeasible result \<longrightarrow>
      published (decode result students weights n s) = [] \<and>
      solution (decode result students weights n s) = solution s \<and>
      objectiveValue (decode result students weights n s) = objectiveValue s) \<and>
   (\<not> isOptimalOrFeasible result \<and> canSolve p \<and>
    extractStudents env (headers p) (rawData p) = Inr (students, weights) \<and>
    loader = Inr highs \<and>
    highs (buildLP env weights (length students) (projectLimits p)) = Inr result \<longrightarrow>
      solution (solve env loader p s) = [] \<and> published (solve env loader p s) = [])"
proof -
  have "solution (solve env loader p s) = [] \<and> published (solve env loader p s) = []"
    if "\<not> isOptimalOrFeasible result" "canSolve p"
      "extractStudents env (headers p) (rawData p) = Inr (students, weights)"
      "loader = Inr highs"
      "highs (buildLP env weights (length students) (projectLimits p)) = Inr result"
    by (simp add: solve_returns [OF that(2-5)] decode_rejected [OF that(1)] startSolving_def)
  then show ?thesis
    by (simp add: decode_accepted decode_rejected isOptimalOrFeasible_def includesStr_iff)
qed

theorem status_classification_witness:
  "isOptimalOrFeasible optimalResult \<and>
   solution (decode optimalResult sampleStudents sampleWeights 2 idleState) =
     [\<lparr>studentName = ''Ana'', projectIndex = 0, weight = Fin 5\<rparr>,
      \<lparr>studentName = ''Bo'', projectIndex = 1, weight = Fin 3\<rparr>] \<and>
   \<not> isOptimalOrFeasible unboundedResult \<and>
   published solvedState \<noteq> [] \<and>
   published (decode unboundedResult sampleStudents sampleWeights 2 solvedState) = [] \<and>
   solution (solve sampleEnv (answering unboundedResult) sampleProps solvedState) = [] \<and>
   published (solve sampleEnv (answering unboundedResult) sampleProps solvedState) = []"
proof -
  have accepted: "isOptimalOrFeasible optimalResult"
    by code_simp
  have rejected: "\<not> isOptimalOrFeasible unboundedResult"
    by code_simp
  have guard: "canSolve sampleProps"
    by code_simp
  have rows: "extractStudents sampleEnv (headers sampleProps) (rawData sampleProps) =
      Inr (sampleStudents, sampleWeights)"
    by code_simp
  have stale: "published solvedState \<noteq> []"
    by code_simp
  have found: "extractAssignments optimalResult sampleStudents sampleWeights
      (length sampleStudents) 2 =
     [\<lparr>studentName = ''Ana'', projectIndex = 0, weight = Fin 5\<rparr>,
      \<lparr>studentName = ''Bo'', projectIndex = 1, weight = Fin 3\<rparr>]"
    by code_simp
  from accepted
    status_classification [where result = optimalResult and students = sampleStudents
      and weights = sampleWeights and n = 2 and s = idleState]
  have "solution (decode optimalResult sampleStudents sampleWeights 2 idleState) =
      extractAssignments optimalResult sampleStudents sampleWeights (length sampleStudents) 2"
    by blast
  moreover from rejected guard rows
    status_classification [where result = unboundedResult and students = sampleStudents
      and weights = sampleWeights and n = 2 and s = solvedState and p = sampleProps
      and env = sampleEnv and loader = "answering unboundedResult"
      and highs = "\<lambda>doc. Inr unboundedResult"]
  have "published (decode unboundedResult sampleStudents sampleWeights 2 solvedState) = [] \<and>
      solution (solve sampleEnv (answering unboundedResult) sampleProps solvedState) = [] \<and>
      published (solve sampleEnv (answering unboundedResult) sampleProps solvedState) = []"
    by (simp add: answering_def)
  ultimately show ?thesis
    using accepted rejected stale found by simp
qed

text \<open>
  C2.  The pipeline on one student and one project whose minimum is two, with a solver
  that answers \<^verbatim>\<open>Infeasible\<close>: the status contains \<^verbatim>\<open>feasible\<close> in lower case, so the
  result is accepted; the objective value is stored and no error message is set.  A
  status without that substring, such as \<^verbatim>\<open>Unbounded\<close>, sets the error message.
\<close>

theorem infeasible_status_accepted:
  "isOptimalOrFeasible infeasibleResult \<and>
   solve sampleEnv (answering infeasibleResult) overfullProps idleState =
     idleState\<lparr> solveStatus := ''Infeasible'', objectiveValue := Some (Fin 0),
       errorMessage := [], solution := [], published := [],
       submitted :=
         [''Minimize'' @ nl @ '' obj: 5 x_0_0'' @ nl @
          ''Subject To'' @ nl @
          '' student_0: x_0_0 = 1'' @ nl @
          '' project_0_min: x_0_0 >= 2'' @ nl @
          '' project_0_max: x_0_0 <= 10'' @ nl @
          ''Bounds'' @ nl @ '' 0 <= x_0_0 <= 1'' @ nl @
          ''Binary'' @ nl @ '' x_0_0'' @ nl @ ''End'']\<rparr> \<and>
   \<not> isOptimalOrFeasible unboundedResult \<and>
   errorMessage (solve sampleEnv (answering unboundedResult) overfullProps idleState) =
     ''Solver status: Unbounded. The problem may be infeasible or unbounded.''"
  by code_simp

text \<open>
  C3.  The decoder does not check that a student has exactly one Assignment: a result
  with status \<^verbatim>\<open>Optimal\<close> that marks two projects for Ana and none for Bo is accepted and
  gives two Assignments to Ana and none to Bo.
\<close>

theorem one_hot_not_checked:
  "isOptimalOrFeasible inconsistentResult \<and>
   length (assignmentsOf ''Ana''
     (solution (decode inconsistentResult sampleStudents sampleWeights 2 idleState))) = 2 \<and>
   length (assignmentsOf ''Bo''
     (solution (decode inconsistentResult sampleStudents sampleWeights 2 idleState))) = 0"
  by code_simp

text \<open>
  C3, as the code has it.  For an accepted result, and names and weights as the
  extraction and the validation leave them, the Assignments are those of the first
  student, then those of the second, and so on, and the student of index \<open>i\<close> gets as many
  as there are projects marked for it: exactly one when exactly one project is marked.
  When the names are distinct, these are the Assignments in which the student's name
  appears.
\<close>

theorem one_assignment_per_marked_project:
  assumes "isOptimalOrFeasible result" and "wellFormed students weights nP"
    and "i < length students"
  shows "solution (decode result students weights nP s) =
           concat (map (\<lambda>k. studentAssignments result students weights nP k [])
             [0..<length students]) \<and>
         length (studentAssignments result students weights nP i []) =
           length (filter (assigned result i) [0..<nP]) \<and>
         ((\<exists>j < nP. assigned result i j \<and> (\<forall>k < nP. assigned result i k \<longrightarrow> k = j)) \<longrightarrow>
            length (studentAssignments result students weights nP i []) = 1) \<and>
         (distinct students \<longrightarrow>
            assignmentsOf (students ! i) (solution (decode result students weights nP s)) =
              studentAssignments result students weights nP i [])"
proof -
  have each: "studentAssignments result students weights nP k [] =
      map (assignmentOf students weights k) (filter (assigned result k) [0..<nP])"
    if "k < length students" for k
    using that assms(2) by (simp add: studentAssignments_closed wellFormed_def list_all_iff)
  have sol: "solution (decode result students weights nP s) =
      extractAssignments result students weights (length students) nP"
    by (simp add: decode_accepted [OF assms(1)])
  have "concat (map (\<lambda>k. studentAssignments result students weights nP k [])
             [0..<length students]) =
      concat (map (\<lambda>k. map (assignmentOf students weights k)
        (filter (assigned result k) [0..<nP])) [0..<length students])"
    by (rule arg_cong [where f = concat]) (simp add: each)
  then have all: "solution (decode result students weights nP s) =
      concat (map (\<lambda>k. studentAssignments result students weights nP k [])
        [0..<length students])"
    by (simp add: sol extractAssignments_concat [OF assms(2)])
  have count: "length (studentAssignments result students weights nP i []) =
      length (filter (assigned result i) [0..<nP])"
    by (simp add: each [OF assms(3)])
  have one: "length (studentAssignments result students weights nP i []) = 1"
    if "\<exists>j < nP. assigned result i j \<and> (\<forall>k < nP. assigned result i k \<longrightarrow> k = j)"
  proof -
    from that obtain j where "j < nP" "assigned result i j"
      "\<forall>k < nP. assigned result i k \<longrightarrow> k = j"
      by blast
    then show ?thesis
      unfolding count by (rule length_filter_one)
  qed
  have name: "assignmentsOf (students ! i) (solution (decode result students weights nP s)) =
      studentAssignments result students weights nP i []"
    if "distinct students"
    by (simp add: sol assignmentsOf_student [OF assms(2) that assms(3)] each [OF assms(3)])
  from all count one name show ?thesis
    by blast
qed

theorem one_assignment_per_marked_project_witness:
  "isOptimalOrFeasible optimalResult \<and>
   wellFormed sampleStudents sampleWeights 2 \<and>
   distinct sampleStudents \<and>
   assigned optimalResult 1 1 \<and> \<not> assigned optimalResult 1 0 \<and>
   length (studentAssignments optimalResult sampleStudents sampleWeights 2 1 []) = 1 \<and>
   assignmentsOf ''Bo'' (solution (decode optimalResult sampleStudents sampleWeights 2 idleState)) =
     [\<lparr>studentName = ''Bo'', projectIndex = 1, weight = Fin 3\<rparr>]"
proof -
  have accepted: "isOptimalOrFeasible optimalResult"
    by code_simp
  have wf: "wellFormed sampleStudents sampleWeights 2"
    by code_simp
  have bo: "(1::nat) < length sampleStudents" "sampleStudents ! 1 = ''Bo''"
    by code_simp+
  have d: "distinct sampleStudents"
    by code_simp
  have marked: "assigned optimalResult 1 1" "\<not> assigned optimalResult 1 0"
    by code_simp+
  have "k = 1" if "k < 2" "assigned optimalResult 1 k" for k
  proof -
    from that(1) have "k = 0 \<or> k = 1" by auto
    with that(2) marked(2) show ?thesis by auto
  qed
  with marked(1)
  have only: "\<exists>j < 2. assigned optimalResult 1 j \<and> (\<forall>k < 2. assigned optimalResult 1 k \<longrightarrow> k = j)"
    by (intro exI [of _ 1]) simp
  have emitted: "studentAssignments optimalResult sampleStudents sampleWeights 2 1 [] =
      [\<lparr>studentName = ''Bo'', projectIndex = 1, weight = Fin 3\<rparr>]"
    by code_simp
  from one_assignment_per_marked_project [OF accepted wf bo(1), of idleState] only d
  have "length (studentAssignments optimalResult sampleStudents sampleWeights 2 1 []) = 1 \<and>
      assignmentsOf (sampleStudents ! 1)
        (solution (decode optimalResult sampleStudents sampleWeights 2 idleState)) =
      studentAssignments optimalResult sampleStudents sampleWeights 2 1 []"
    by blast
  with accepted wf d marked bo(2) emitted show ?thesis
    by simp
qed

text \<open>
  C4.  For names and weights as the extraction and the validation leave them, the
  decoder emits, students in the outer enumeration and projects in the inner one,
  exactly one Assignment for each pair whose variable is marked, and the Assignment
  carries the name of the student, the index of the project and the entry of the weight
  matrix at the pair.  A variable is marked exactly when the result has a table of
  columns, the table has a column under the variable's name, the column has a
  \<^verbatim>\<open>Primal\<close>, and it exceeds one half; in every other case the pair gives no Assignment,
  and nothing is thrown.  Two pairs have the same variable name only if they are the
  same pair.
\<close>

theorem assignments_follow_columns:
  "(wellFormed students weights nP \<longrightarrow>
      extractAssignments result students weights (length students) nP =
        map (\<lambda>(i, j). assignmentOf students weights i j)
          (filter (\<lambda>(i, j). assigned result i j)
             (List.product [0..<length students] [0..<nP]))) \<and>
   (assigned result i j \<longleftrightarrow>
      (\<exists>cols column p. Columns result = Some cols \<and> cols (varName i j) = Some column \<and>
         Primal column = Some p \<and> js_gt p (Fin 0.5))) \<and>
   (varName i j = varName i' j' \<longleftrightarrow> i = i' \<and> j = j') \<and>
   assignmentOf students weights i j =
     \<lparr>studentName = students ! i, projectIndex = j, weight = weights ! i ! j\<rparr> \<and>
   (canSolve props \<and>
    extractStudents env (headers props) (rawData props) = Inr (students, weights) \<longrightarrow>
      wellFormed students weights (length (projectLimits props)))"
proof -
  have "wellFormed students weights (length (projectLimits props))"
    if "canSolve props"
      "extractStudents env (headers props) (rawData props) = Inr (students, weights)"
    using extractStudents_wellFormed(1) [OF that(2)] canSolve_projects [OF that(1)] by simp
  moreover have "varName i j = varName i' j' \<longleftrightarrow> i = i' \<and> j = j'"
    using varName_inj [of i j i' j'] by blast
  ultimately show ?thesis
    using assigned_iff [of result i j]
    by (simp add: extractAssignments_product assignmentOf_def)
qed

theorem assignments_follow_columns_witness:
  "wellFormed sampleStudents sampleWeights 2 \<and>
   extractAssignments optimalResult sampleStudents sampleWeights (length sampleStudents) 2 =
     [assignmentOf sampleStudents sampleWeights 0 0, assignmentOf sampleStudents sampleWeights 1 1] \<and>
   assignmentOf sampleStudents sampleWeights 1 1 =
     \<lparr>studentName = ''Bo'', projectIndex = 1, weight = Fin 3\<rparr> \<and>
   assigned optimalResult 1 1 \<and>
   \<not> assigned optimalResult 1 0 \<and>
   canSolve sampleProps \<and>
   extractStudents sampleEnv (headers sampleProps) (rawData sampleProps) =
     Inr (sampleStudents, sampleWeights) \<and>
   wellFormed sampleStudents sampleWeights (length (projectLimits sampleProps))"
proof -
  have wf: "wellFormed sampleStudents sampleWeights 2"
    by code_simp
  have guard: "canSolve sampleProps"
    by code_simp
  have rows: "extractStudents sampleEnv (headers sampleProps) (rawData sampleProps) =
      Inr (sampleStudents, sampleWeights)"
    by code_simp
  have marked: "assigned optimalResult 1 1" "\<not> assigned optimalResult 1 0"
    by code_simp+
  have pairs: "map (\<lambda>(i, j). assignmentOf sampleStudents sampleWeights i j)
          (filter (\<lambda>(i, j). assigned optimalResult i j)
             (List.product [0..<length sampleStudents] [0..<2])) =
     [assignmentOf sampleStudents sampleWeights 0 0, assignmentOf sampleStudents sampleWeights 1 1]"
    by code_simp
  have bo: "assignmentOf sampleStudents sampleWeights 1 1 =
     \<lparr>studentName = ''Bo'', projectIndex = 1, weight = Fin 3\<rparr>"
    by code_simp
  from wf guard rows
    assignments_follow_columns [where students = sampleStudents and weights = sampleWeights
      and nP = 2 and result = optimalResult and props = sampleProps and env = sampleEnv]
  have "extractAssignments optimalResult sampleStudents sampleWeights (length sampleStudents) 2 =
        map (\<lambda>(i, j). assignmentOf sampleStudents sampleWeights i j)
          (filter (\<lambda>(i, j). assigned optimalResult i j)
             (List.product [0..<length sampleStudents] [0..<2])) \<and>
    wellFormed sampleStudents sampleWeights (length (projectLimits sampleProps))"
    by blast
  with wf guard rows marked pairs bo show ?thesis
    by simp
qed

text \<open>
  C5.  The document starts with \<^verbatim>\<open>Minimize\<close>.  The objective has one term, the weight and
  the variable, for each pair of a student and a project whose weight is not zero, the
  students in the outer enumeration and the projects in the inner one (no pair occurs
  twice, and inside the matrix the weight is the entry of the matrix); its line holds
  the terms joined by \<^verbatim>\<open>+\<close>.  When every weight is zero there is no term and the line is
  the constant \<^verbatim>\<open>0\<close>.
\<close>

theorem objective_terms:
  "objectiveTerms env weights nS (length limits) =
     map (\<lambda>(i, j). numToString env (weightAt weights i j) @ '' '' @ varName i j)
       (filter (\<lambda>(i, j). weightAt weights i j \<noteq> Fin 0)
          (List.product [0..<nS] [0..<length limits])) \<and>
   distinct (List.product [0..<nS] [0..<length limits]) \<and>
   (i < length weights \<and> j < length (weights ! i) \<longrightarrow> weightAt weights i j = weights ! i ! j) \<and>
   (\<exists>rest. buildLP env weights nS limits =
      ''Minimize'' @ nl @ '' obj: '' @
      (if objectiveTerms env weights nS (length limits) = [] then ''0''
       else join '' + '' (objectiveTerms env weights nS (length limits))) @ nl @
      ''Subject To'' @ nl @ rest) \<and>
   ((\<forall>i < nS. \<forall>j < length limits. weightAt weights i j = Fin 0) \<longrightarrow>
      objectiveTerms env weights nS (length limits) = [] \<and>
      prefix (''Minimize'' @ nl @ '' obj: 0'' @ nl) (buildLP env weights nS limits))"
proof -
  let ?terms = "objectiveTerms env weights nS (length limits)"
  have line: "objectiveLine ?terms =
      '' '' @ (if ?terms = [] then ''0'' else join '' + '' ?terms) @ nl"
    by (simp add: objectiveLine_def)
  have lp: "\<exists>rest. buildLP env weights nS limits =
      ''Minimize'' @ nl @ '' obj: '' @
      (if ?terms = [] then ''0'' else join '' + '' ?terms) @ nl @ ''Subject To'' @ nl @ rest"
    unfolding buildLP_sections line by simp
  have zero: "?terms = [] \<and> prefix (''Minimize'' @ nl @ '' obj: 0'' @ nl)
        (buildLP env weights nS limits)"
    if z: "\<forall>i < nS. \<forall>j < length limits. weightAt weights i j = Fin 0"
  proof -
    from z have "filter (\<lambda>j. weightAt weights i j \<noteq> Fin 0) [0..<length limits] = []"
      if "i < nS" for i
      using that by (simp add: filter_empty_conv)
    then have e: "?terms = []"
      by (simp add: objectiveTerms_concat)
    from lp e obtain rest where "buildLP env weights nS limits =
        (''Minimize'' @ nl @ '' obj: 0'' @ nl) @ ''Subject To'' @ nl @ rest"
      by auto
    then have "prefix (''Minimize'' @ nl @ '' obj: 0'' @ nl) (buildLP env weights nS limits)"
      by (metis prefixI)
    with e show ?thesis by simp
  qed
  have inside: "i < length weights \<and> j < length (weights ! i) \<longrightarrow>
      weightAt weights i j = weights ! i ! j"
    by (simp add: weightAt_def)
  have pairs: "distinct (List.product [0..<nS] [0..<length limits])"
    by (simp add: distinct_product)
  from lp zero inside pairs show ?thesis
    by (simp only: objectiveTerms_product [symmetric]) blast
qed

theorem objective_terms_witness:
  "objectiveTerms sampleEnv sampleWeights 2 (length sampleLimits) = [''5 x_0_0'', ''3 x_1_1''] \<and>
   weightAt sampleWeights 1 1 = Fin 3 \<and>
   prefix (''Minimize'' @ nl @ '' obj: 5 x_0_0 + 3 x_1_1'' @ nl @ ''Subject To'' @ nl)
     (buildLP sampleEnv sampleWeights 2 sampleLimits) \<and>
   objectiveTerms sampleEnv [[Fin 0, Fin 0]] 1 (length sampleLimits) = [] \<and>
   prefix (''Minimize'' @ nl @ '' obj: 0'' @ nl) (buildLP sampleEnv [[Fin 0, Fin 0]] 1 sampleLimits)"
proof -
  have terms: "objectiveTerms sampleEnv sampleWeights 2 (length sampleLimits) =
      [''5 x_0_0'', ''3 x_1_1'']"
    by code_simp
  have "weightAt [[Fin 0, Fin 0]] i j = Fin 0" for i j
    by (cases i; cases j) (simp_all add: weightAt_def nth_Cons')
  then have zeros: "\<forall>i < 1. \<forall>j < length sampleLimits. weightAt [[Fin 0, Fin 0]] i j = Fin 0"
    by simp
  have entry: "(1::nat) < length sampleWeights \<and> (1::nat) < length (sampleWeights ! 1)"
      "sampleWeights ! 1 ! 1 = Fin 3"
    by code_simp+
  with objective_terms [of sampleEnv sampleWeights 2 sampleLimits 1 1]
  have at: "weightAt sampleWeights 1 1 = Fin 3"
    by simp
  from objective_terms [of sampleEnv sampleWeights 2 sampleLimits] terms
  obtain rest where "buildLP sampleEnv sampleWeights 2 sampleLimits =
      (''Minimize'' @ nl @ '' obj: 5 x_0_0 + 3 x_1_1'' @ nl @ ''Subject To'' @ nl) @ rest"
    by auto
  then have "prefix (''Minimize'' @ nl @ '' obj: 5 x_0_0 + 3 x_1_1'' @ nl @ ''Subject To'' @ nl)
      (buildLP sampleEnv sampleWeights 2 sampleLimits)"
    by (metis prefixI)
  moreover from zeros objective_terms [of sampleEnv "[[Fin 0, Fin 0]]" 1 sampleLimits]
  have "objectiveTerms sampleEnv [[Fin 0, Fin 0]] 1 (length sampleLimits) = [] \<and>
      prefix (''Minimize'' @ nl @ '' obj: 0'' @ nl)
        (buildLP sampleEnv [[Fin 0, Fin 0]] 1 sampleLimits)"
    by blast
  ultimately show ?thesis
    using terms at by simp
qed

text \<open>
  C6.  For capacity limits none of whose maxima is minus infinity, as is the case for
  limits that satisfy the invariant of the data model (which the capacity editor keeps,
  see \<open>updateMin_invariant\<close> and \<open>updateMax_invariant\<close>), the section \<^verbatim>\<open>Subject To\<close> of
  the document consists of the one-hot constraint of every student, in order, followed
  for every project, in order, by its lower bound if and only if the minimum is
  positive and its upper bound if and only if the maximum is finite.
\<close>

theorem constraints_emitted:
  "(list_all projectInvariant limits \<longrightarrow> list_all (\<lambda>l. max_limit l \<noteq> NegInf) limits) \<and>
   (list_all (\<lambda>l. max_limit l \<noteq> NegInf) limits \<longrightarrow>
    buildLP env weights nS limits =
     ''Minimize'' @ nl @ '' obj:'' @
     objectiveLine (objectiveTerms env weights nS (length limits)) @
     ''Subject To'' @ nl @
     concat (map (oneHotConstraint (length limits)) [0..<nS]) @
     concat (map (\<lambda>j.
        (if js_gt (min_limit (limits ! j)) (Fin 0)
         then lowerBoundConstraint env nS j (min_limit (limits ! j)) else []) @
        (if isFinite (max_limit (limits ! j))
         then upperBoundConstraint env nS j (max_limit (limits ! j)) else []))
       [0..<length limits]) @
     ''Bounds'' @ nl @ boundsText nS (length limits) @
     ''Binary'' @ nl @ binaryText nS (length limits) @ ''End'')"
proof -
  have inv: "list_all (\<lambda>l. max_limit l \<noteq> NegInf) limits"
    if "list_all projectInvariant limits"
    using that by (simp add: list_all_iff invariant_not_NegInf)
  have doc: "buildLP env weights nS limits =
     ''Minimize'' @ nl @ '' obj:'' @
     objectiveLine (objectiveTerms env weights nS (length limits)) @
     ''Subject To'' @ nl @
     concat (map (oneHotConstraint (length limits)) [0..<nS]) @
     concat (map (\<lambda>j.
        (if js_gt (min_limit (limits ! j)) (Fin 0)
         then lowerBoundConstraint env nS j (min_limit (limits ! j)) else []) @
        (if isFinite (max_limit (limits ! j))
         then upperBoundConstraint env nS j (max_limit (limits ! j)) else []))
       [0..<length limits]) @
     ''Bounds'' @ nl @ boundsText nS (length limits) @
     ''Binary'' @ nl @ binaryText nS (length limits) @ ''End''"
    if "list_all (\<lambda>l. max_limit l \<noteq> NegInf) limits"
  proof -
    from that have "\<forall>l \<in> set limits. max_limit l \<noteq> NegInf"
      by (simp add: list_all_iff)
    then have "projectConstraints env nS (length limits) limits [] =
        concat (map (\<lambda>j. capacityConstraints env nS j (limits ! j)) [0..<length limits])"
      by (simp add: projectConstraints_closed)
    then show ?thesis
      by (simp only: buildLP_sections studentConstraints_closed capacityConstraints_def
          append_Nil)
  qed
  from inv doc show ?thesis
    by blast
qed

theorem constraints_emitted_witness:
  "list_all projectInvariant
     [\<lparr>min_limit = Fin 0, max_limit = Fin 1\<rparr>, \<lparr>min_limit = Fin 2, max_limit = PosInf\<rparr>] \<and>
   buildLP sampleEnv sampleWeights 2
     [\<lparr>min_limit = Fin 0, max_limit = Fin 1\<rparr>, \<lparr>min_limit = Fin 2, max_limit = PosInf\<rparr>] =
     ''Minimize'' @ nl @ '' obj: 5 x_0_0 + 3 x_1_1'' @ nl @
     ''Subject To'' @ nl @
     '' student_0: x_0_0 + x_0_1 = 1'' @ nl @
     '' student_1: x_1_0 + x_1_1 = 1'' @ nl @
     '' project_0_max: x_0_0 + x_1_0 <= 1'' @ nl @
     '' project_1_min: x_0_1 + x_1_1 >= 2'' @ nl @
     ''Bounds'' @ nl @
     '' 0 <= x_0_0 <= 1'' @ nl @ '' 0 <= x_0_1 <= 1'' @ nl @
     '' 0 <= x_1_0 <= 1'' @ nl @ '' 0 <= x_1_1 <= 1'' @ nl @
     ''Binary'' @ nl @
     '' x_0_0'' @ nl @ '' x_0_1'' @ nl @ '' x_1_0'' @ nl @ '' x_1_1'' @ nl @ ''End''"
proof -
  let ?limits = "[\<lparr>min_limit = Fin 0, max_limit = Fin 1\<rparr>, \<lparr>min_limit = Fin 2, max_limit = PosInf\<rparr>]"
  have inv: "list_all projectInvariant ?limits"
    by code_simp
  have "''Minimize'' @ nl @ '' obj:'' @
     objectiveLine (objectiveTerms sampleEnv sampleWeights 2 (length ?limits)) @
     ''Subject To'' @ nl @
     concat (map (oneHotConstraint (length ?limits)) [0..<2]) @
     concat (map (\<lambda>j.
        (if js_gt (min_limit (?limits ! j)) (Fin 0)
         then lowerBoundConstraint sampleEnv 2 j (min_limit (?limits ! j)) else []) @
        (if isFinite (max_limit (?limits ! j))
         then upperBoundConstraint sampleEnv 2 j (max_limit (?limits ! j)) else []))
       [0..<length ?limits]) @
     ''Bounds'' @ nl @ boundsText 2 (length ?limits) @
     ''Binary'' @ nl @ binaryText 2 (length ?limits) @ ''End'' =
     ''Minimize'' @ nl @ '' obj: 5 x_0_0 + 3 x_1_1'' @ nl @
     ''Subject To'' @ nl @
     '' student_0: x_0_0 + x_0_1 = 1'' @ nl @
     '' student_1: x_1_0 + x_1_1 = 1'' @ nl @
     '' project_0_max: x_0_0 + x_1_0 <= 1'' @ nl @
     '' project_1_min: x_0_1 + x_1_1 >= 2'' @ nl @
     ''Bounds'' @ nl @
     '' 0 <= x_0_0 <= 1'' @ nl @ '' 0 <= x_0_1 <= 1'' @ nl @
     '' 0 <= x_1_0 <= 1'' @ nl @ '' 0 <= x_1_1 <= 1'' @ nl @
     ''Binary'' @ nl @
     '' x_0_0'' @ nl @ '' x_0_1'' @ nl @ '' x_1_0'' @ nl @ '' x_1_1'' @ nl @ ''End''"
    by code_simp
  with constraints_emitted [of ?limits sampleEnv sampleWeights 2] inv show ?thesis
    by (simp only: simp_thms)
qed

text \<open>
  C7.  A list of capacity limits whose length differs from the number of columns less
  one fails the guard: \<^verbatim>\<open>solve\<close> only sets the message
  \<^verbatim>\<open>Cannot solve: Missing data or project limits\<close> and no document is handed to the
  solver; so it is with four columns, that is three projects, and two limits.  A row of
  weights whose length differs from the number of limits makes the formulation throw
  \<^verbatim>\<open>Inconsistent number of project weights\<close> instead of giving a document.
\<close>

theorem dimension_mismatch_aborts:
  "(int (length (projectLimits p)) \<noteq> int (length (headers p)) - 1 \<longrightarrow>
      \<not> canSolve p \<and>
      solve env loader p s =
        s\<lparr>errorMessage := ''Cannot solve: Missing data or project limits''\<rparr> \<and>
      submitted (solve env loader p s) = submitted s) \<and>
   (length (headers p) = 4 \<and> length (projectLimits p) = 2 \<longrightarrow>
      errorMessage (solve env loader p s) = ''Cannot solve: Missing data or project limits'' \<and>
      submitted (solve env loader p s) = submitted s) \<and>
   ((\<exists>w \<in> set weights. length w \<noteq> length limits) \<longrightarrow>
      formulate env students weights limits =
        Inl (Error ''Inconsistent number of project weights''))"
proof -
  have blocked: "\<not> canSolve p \<and>
      solve env loader p s =
        s\<lparr>errorMessage := ''Cannot solve: Missing data or project limits''\<rparr> \<and>
      submitted (solve env loader p s) = submitted s"
    if "int (length (projectLimits p)) \<noteq> int (length (headers p)) - 1"
  proof -
    from that have "\<not> canSolve p"
      by (simp add: canSolve_def)
    then show ?thesis
      by (simp add: solve_blocked)
  qed
  have "int (length (projectLimits p)) \<noteq> int (length (headers p)) - 1"
    if "length (headers p) = 4 \<and> length (projectLimits p) = 2"
    using that by simp
  with blocked have three: "errorMessage (solve env loader p s) =
        ''Cannot solve: Missing data or project limits'' \<and>
      submitted (solve env loader p s) = submitted s"
    if "length (headers p) = 4 \<and> length (projectLimits p) = 2"
    using that by simp
  have "formulate env students weights limits =
        Inl (Error ''Inconsistent number of project weights'')"
    if "\<exists>w \<in> set weights. length w \<noteq> length limits"
    using that by (simp add: formulate_def inconsistentWeights_def list_ex_iff)
  with blocked three show ?thesis
    by blast
qed

theorem dimension_mismatch_aborts_witness:
  "length (headers mismatchedProps) = 4 \<and> length (projectLimits mismatchedProps) = 2 \<and>
   solve sampleEnv (answering optimalResult) mismatchedProps idleState =
     idleState\<lparr>errorMessage := ''Cannot solve: Missing data or project limits''\<rparr> \<and>
   submitted (solve sampleEnv (answering optimalResult) mismatchedProps idleState) = [] \<and>
   formulate sampleEnv [''Ana''] [[Fin 1, Fin 2, Fin 3]] sampleLimits =
     Inl (Error ''Inconsistent number of project weights'')"
proof -
  have sizes: "length (headers mismatchedProps) = 4 \<and> length (projectLimits mismatchedProps) = 2"
    by code_simp
  then have differ: "int (length (projectLimits mismatchedProps)) \<noteq>
      int (length (headers mismatchedProps)) - 1"
    by simp
  have row: "\<exists>w \<in> set [[Fin 1, Fin 2, Fin 3]]. length w \<noteq> length sampleLimits"
    by (simp add: sampleLimits_def)
  have idle: "submitted idleState = []"
    by (simp add: idleState_def)
  from differ row
    dimension_mismatch_aborts [where p = mismatchedProps and env = sampleEnv
      and loader = "answering optimalResult" and s = idleState
      and weights = "[[Fin 1, Fin 2, Fin 3]]" and limits = sampleLimits and students = "[''Ana'']"]
  have "solve sampleEnv (answering optimalResult) mismatchedProps idleState =
     idleState\<lparr>errorMessage := ''Cannot solve: Missing data or project limits''\<rparr> \<and>
   submitted (solve sampleEnv (answering optimalResult) mismatchedProps idleState) =
     submitted idleState \<and>
   formulate sampleEnv [''Ana''] [[Fin 1, Fin 2, Fin 3]] sampleLimits =
     Inl (Error ''Inconsistent number of project weights'')"
    by blast
  with sizes idle show ?thesis
    by simp
qed



text \<open>
  C9.  When the guard fails, \<^verbatim>\<open>solve\<close> returns before it clears anything: with three
  projects and two limits, the solution of an earlier solve is still there afterwards.
\<close>

theorem stale_solution_when_blocked:
  "\<not> canSolve mismatchedProps \<and>
   solution solvedState = [\<lparr>studentName = ''Ana'', projectIndex = 0, weight = Fin 5\<rparr>] \<and>
   solution (solve sampleEnv unavailable mismatchedProps solvedState) =
     [\<lparr>studentName = ''Ana'', projectIndex = 0, weight = Fin 5\<rparr>] \<and>
   errorMessage (solve sampleEnv unavailable mismatchedProps solvedState) =
     ''Cannot solve: Missing data or project limits''"
  by code_simp

text \<open>
  C9, as the code has it.  When the guard fails, \<^verbatim>\<open>solve\<close> sets the error message and
  changes nothing else.  When the guard holds, every failure leaves the component's
  solution empty, its objective value and status cleared and the busy flag off, and
  what was thrown becomes the error message: so it is when no row is kept, when the
  solver fails to load, when the solver throws on the document, and whatever else the
  \<^verbatim>\<open>try\<close> block throws.  Nothing is thrown past \<^verbatim>\<open>solve\<close>, and the busy flag is off at the
  end of every run that passed the guard.
\<close>

theorem failures_clear_state:
  "(\<not> canSolve p \<longrightarrow>
      solve env loader p s =
        s\<lparr>errorMessage := ''Cannot solve: Missing data or project limits''\<rparr>) \<and>
   (canSolve p \<and> extractStudents env (headers p) (rawData p) = Inl e1 \<longrightarrow>
      e1 = Error ''No valid students found in the data'' \<and>
      clearedWith ''No valid students found in the data'' (solve env loader p s)) \<and>
   (canSolve p \<and> extractStudents env (headers p) (rawData p) = Inr (students, weights) \<and>
    loader = Inl e2 \<longrightarrow>
      clearedWith (messageOf e2) (solve env loader p s)) \<and>
   (canSolve p \<and> extractStudents env (headers p) (rawData p) = Inr (students, weights) \<and>
    loader = Inr highs \<and>
    highs (buildLP env weights (length students) (projectLimits p)) = Inl e3 \<longrightarrow>
      clearedWith (messageOf e3) (solve env loader p s)) \<and>
   (canSolve p \<and> fst (tryBody env loader p (startSolving s)) = Some e \<longrightarrow>
      clearedWith (messageOf e) (solve env loader p s)) \<and>
   (canSolve p \<longrightarrow> \<not> isSolving (solve env loader p s))"
proof -
  have thrown: "clearedWith (messageOf e) (solve env loader p s)"
    if "canSolve p" "fst (tryBody env loader p (startSolving s)) = Some e" for e
    using solve_thrown [OF that] by (simp add: clearedWith_def)
  have norows: "e1 = Error ''No valid students found in the data'' \<and>
      clearedWith ''No valid students found in the data'' (solve env loader p s)"
    if g: "canSolve p" and x: "extractStudents env (headers p) (rawData p) = Inl e1"
  proof -
    from x have e1: "e1 = Error ''No valid students found in the data''"
      by (simp add: extractStudents_def split: if_splits)
    from thrown [OF g, of e1] tryBody_no_students [OF x, of loader "startSolving s"] e1
    show ?thesis
      by (simp add: messageOf_def)
  qed
  have load: "clearedWith (messageOf e2) (solve env loader p s)"
    if g: "canSolve p"
      and x: "extractStudents env (headers p) (rawData p) = Inr (students, weights)"
      and l: "loader = Inl e2"
    using thrown [OF g, of e2] tryBody_load_fails [OF g x l, of "startSolving s"] by simp
  have throws: "clearedWith (messageOf e3) (solve env loader p s)"
    if g: "canSolve p"
      and x: "extractStudents env (headers p) (rawData p) = Inr (students, weights)"
      and l: "loader = Inr highs"
      and h: "highs (buildLP env weights (length students) (projectLimits p)) = Inl e3"
    using thrown [OF g, of e3] tryBody_solver_throws [OF g x l h, of "startSolving s"] by simp
  have idle: "\<not> isSolving (solve env loader p s)" if "canSolve p"
    using that by (simp add: solve_def Let_def)
  from solve_blocked [of p env loader s] thrown norows load throws idle show ?thesis
    by blast
qed

theorem failures_clear_state_witness:
  "\<not> canSolve mismatchedProps \<and>
   solve sampleEnv unavailable mismatchedProps solvedState =
     solvedState\<lparr>errorMessage := ''Cannot solve: Missing data or project limits''\<rparr> \<and>
   canSolve blankProps \<and>
   extractStudents sampleEnv (headers blankProps) (rawData blankProps) =
     Inl (Error ''No valid students found in the data'') \<and>
   clearedWith ''No valid students found in the data''
     (solve sampleEnv (answering optimalResult) blankProps solvedState) \<and>
   canSolve sampleProps \<and>
   extractStudents sampleEnv (headers sampleProps) (rawData sampleProps) =
     Inr (sampleStudents, sampleWeights) \<and>
   clearedWith ''Failed to fetch dynamically imported module''
     (solve sampleEnv unavailable sampleProps solvedState) \<and>
   clearedWith ''Unable to read LP model''
     (solve sampleEnv throwing sampleProps solvedState) \<and>
   fst (tryBody sampleEnv throwing sampleProps (startSolving idleState)) =
     Some (Error ''Unable to read LP model'') \<and>
   clearedWith ''Unable to read LP model''
     (solve sampleEnv throwing sampleProps idleState) \<and>
   \<not> isSolving (solve sampleEnv (answering optimalResult) sampleProps solvedState)"
proof -
  have blocked: "\<not> canSolve mismatchedProps"
    by code_simp
  have g1: "canSolve blankProps" and g2: "canSolve sampleProps"
    by code_simp+
  have none: "extractStudents sampleEnv (headers blankProps) (rawData blankProps) =
     Inl (Error ''No valid students found in the data'')"
    by code_simp
  have rows: "extractStudents sampleEnv (headers sampleProps) (rawData sampleProps) =
     Inr (sampleStudents, sampleWeights)"
    by code_simp
  have l1: "unavailable = Inl (Error ''Failed to fetch dynamically imported module'')"
    by (simp add: unavailable_def)
  have l2: "throwing = Inr (\<lambda>doc. Inl (Error ''Unable to read LP model''))"
    by (simp add: throwing_def)
  from blocked
    failures_clear_state [where p = mismatchedProps and env = sampleEnv and loader = unavailable
      and s = solvedState]
  have a: "solve sampleEnv unavailable mismatchedProps solvedState =
     solvedState\<lparr>errorMessage := ''Cannot solve: Missing data or project limits''\<rparr>"
    by blast
  from g1 none
    failures_clear_state [where p = blankProps and env = sampleEnv
      and loader = "answering optimalResult" and s = solvedState
      and ?e1.0 = "Error ''No valid students found in the data''"]
  have b: "clearedWith ''No valid students found in the data''
     (solve sampleEnv (answering optimalResult) blankProps solvedState)"
    by blast
  from g2 rows l1
    failures_clear_state [where p = sampleProps and env = sampleEnv and loader = unavailable
      and s = solvedState and students = sampleStudents and weights = sampleWeights
      and ?e2.0 = "Error ''Failed to fetch dynamically imported module''"]
  have c: "clearedWith (messageOf (Error ''Failed to fetch dynamically imported module''))
     (solve sampleEnv unavailable sampleProps solvedState)"
    by blast
  from g2 rows l2
    failures_clear_state [where p = sampleProps and env = sampleEnv and loader = throwing
      and s = solvedState and students = sampleStudents and weights = sampleWeights
      and highs = "\<lambda>doc. Inl (Error ''Unable to read LP model'')"
      and ?e3.0 = "Error ''Unable to read LP model''"]
  have d: "clearedWith (messageOf (Error ''Unable to read LP model''))
     (solve sampleEnv throwing sampleProps solvedState)"
    by simp
  have t: "fst (tryBody sampleEnv throwing sampleProps (startSolving idleState)) =
     Some (Error ''Unable to read LP model'')"
    by code_simp
  from g2 t
    failures_clear_state [where p = sampleProps and env = sampleEnv and loader = throwing
      and s = idleState and e = "Error ''Unable to read LP model''"]
  have d': "clearedWith (messageOf (Error ''Unable to read LP model''))
     (solve sampleEnv throwing sampleProps idleState)"
    by blast
  from g2
    failures_clear_state [where p = sampleProps and env = sampleEnv
      and loader = "answering optimalResult" and s = solvedState]
  have f: "\<not> isSolving (solve sampleEnv (answering optimalResult) sampleProps solvedState)"
    by blast
  from blocked g1 g2 none rows a b c d d' t f show ?thesis
    by (simp add: messageOf_def)
qed

text \<open>
  C10.  Every row of weights that the extraction produces has as many entries as there
  are headers after the first.  When the guard holds, that number is the number of
  capacity limits, the test of line 84 is false, and the formulation gives the document:
  the error of line 85 is not thrown.
\<close>

theorem weight_rows_match_projects:
  "(\<forall>w \<in> set (snd (extractLoop env hs raw)). length w = length hs - 1) \<and>
   (canSolve p \<and> extractStudents env (headers p) (rawData p) = Inr (students, weights) \<longrightarrow>
      (\<forall>w \<in> set weights.
         int (length w) = int (length (headers p)) - 1 \<and>
         length w = length (projectLimits p)) \<and>
      \<not> inconsistentWeights weights (length (projectLimits p)) \<and>
      formulate env students weights (projectLimits p) =
        Inr (buildLP env weights (length students) (projectLimits p)))"
proof -
  have rows: "\<forall>w \<in> set (snd (extractLoop env hs raw)). length w = length hs - 1"
    by (auto simp: extractLoop_closed length_studentWeightsOf)
  have guarded: "(\<forall>w \<in> set weights.
         int (length w) = int (length (headers p)) - 1 \<and>
         length w = length (projectLimits p)) \<and>
      \<not> inconsistentWeights weights (length (projectLimits p)) \<and>
      formulate env students weights (projectLimits p) =
        Inr (buildLP env weights (length students) (projectLimits p))"
    if g: "canSolve p"
      and e: "extractStudents env (headers p) (rawData p) = Inr (students, weights)"
  proof -
    from g have n: "int (length (projectLimits p)) = int (length (headers p)) - 1"
      by (simp add: canSolve_def)
    from extractStudents_wellFormed(1) [OF e] canSolve_projects [OF g]
    have "\<forall>w \<in> set weights. length w = length (projectLimits p)"
      by (simp add: wellFormed_def list_all_iff)
    with n have "\<forall>w \<in> set weights.
         int (length w) = int (length (headers p)) - 1 \<and>
         length w = length (projectLimits p)"
      by simp
    with canSolve_consistent [OF g e] canSolve_formulate [OF g e] show ?thesis
      by blast
  qed
  from rows guarded show ?thesis
    by blast
qed

theorem weight_rows_match_projects_witness:
  "canSolve sampleProps \<and>
   extractStudents sampleEnv (headers sampleProps) (rawData sampleProps) =
     Inr (sampleStudents, sampleWeights) \<and>
   snd (extractLoop sampleEnv sampleHeaders sampleRows) = sampleWeights \<and>
   list_all (\<lambda>w. length w = 2) sampleWeights \<and>
   \<not> inconsistentWeights sampleWeights (length (projectLimits sampleProps)) \<and>
   formulate sampleEnv sampleStudents sampleWeights (projectLimits sampleProps) =
     Inr (buildLP sampleEnv sampleWeights (length sampleStudents) (projectLimits sampleProps))"
proof -
  have guard: "canSolve sampleProps"
    by code_simp
  have rows: "extractStudents sampleEnv (headers sampleProps) (rawData sampleProps) =
      Inr (sampleStudents, sampleWeights)"
    by code_simp
  have loop: "snd (extractLoop sampleEnv sampleHeaders sampleRows) = sampleWeights"
    by code_simp
  have hs: "length sampleHeaders - 1 = 2"
    by code_simp
  note t = weight_rows_match_projects [where env = sampleEnv and hs = sampleHeaders
      and raw = sampleRows and p = sampleProps and students = sampleStudents
      and weights = sampleWeights]
  from t loop hs have "list_all (\<lambda>w. length w = 2) sampleWeights"
    by (simp add: list_all_iff)
  moreover from t guard rows
  have "\<not> inconsistentWeights sampleWeights (length (projectLimits sampleProps)) \<and>
   formulate sampleEnv sampleStudents sampleWeights (projectLimits sampleProps) =
     Inr (buildLP sampleEnv sampleWeights (length sampleStudents) (projectLimits sampleProps))"
    by blast
  ultimately show ?thesis
    using guard rows loop by simp
qed

end
